theory Spec2Isabelle
  imports Main
begin

section \<open>Data model of \<^verbatim>\<open>src/main.ts\<close>\<close>

text \<open>
  JavaScript strings are modelled as \<^typ>\<open>string\<close>, read as the UTF-8 bytes of the text.
  \<^verbatim>\<open>string | null\<close> is \<^typ>\<open>string option\<close>.
\<close>

record MyPluginSettings =
  apiKey :: string

text \<open>\<^verbatim>\<open>interface AddKnowledgeFileData\<close> (lines 16-20).\<close>

record AddKnowledgeFileData =
  parent_id :: "string option"
  file_name :: string
  is_folder :: bool

text \<open>
  An element of the array that \<^verbatim>\<open>GET /knowledge/files\<close> answers with: the source reads its
  \<^verbatim>\<open>file_name\<close>, \<^verbatim>\<open>is_folder\<close> and \<^verbatim>\<open>id\<close>; \<^verbatim>\<open>parent_id\<close> is carried by the service and never
  read by the source.
\<close>

record RemoteItem = AddKnowledgeFileData +
  id' :: string

text \<open>The host's \<^verbatim>\<open>TFile\<close>: the fields the source reads.\<close>

record TFile =
  path :: string
  name :: string
  extension :: string

text \<open>
  The Web platform's \<^verbatim>\<open>Blob\<close> and \<^verbatim>\<open>File\<close>. \<^verbatim>\<open>new Blob(parts, {type})\<close> concatenates its parts
  and takes the type of its options. \<^verbatim>\<open>new File(parts, name)\<close>, called without an options
  argument as on line 193, concatenates the bytes of its parts and has the empty string as
  its type (File API, constructor steps: the type is taken from the options dictionary,
  whose default is the empty string; the type of a Blob among the parts is not inherited).
\<close>

record Blob =
  blob_bits :: string
  blob_type :: string

record File =
  file_bits :: string
  file_name' :: string
  file_type :: string

definition new_Blob :: "string list \<Rightarrow> string \<Rightarrow> Blob" where
  "new_Blob parts ty = \<lparr>blob_bits = concat parts, blob_type = ty\<rparr>"

definition new_File :: "Blob list \<Rightarrow> string \<Rightarrow> File" where
  "new_File parts nm = \<lparr>file_bits = concat (map blob_bits parts), file_name' = nm, file_type = []\<rparr>"

text \<open>A \<^verbatim>\<open>FormData\<close>: its entries in the order of the \<^verbatim>\<open>append\<close> calls.\<close>

datatype FormDataEntryValue = Text string | FilePart File

type_synonym FormData = "(string \<times> FormDataEntryValue) list"

text \<open>A thrown value: a generic error with its message, or the error axios rejects with
  for a response whose status is outside 200..299.\<close>

datatype exn = Error string | AxiosError nat

text \<open>The argument and the answer of the host's \<^verbatim>\<open>requestUrl\<close>.\<close>

record RequestUrlParam =
  url :: string
  "method" :: string
  headers :: "(string \<times> string) list"
  body :: "string option"

record 'a RequestUrlResponse =
  status :: nat
  json :: 'a

text \<open>\<^verbatim>\<open>axios.create({baseURL, headers})\<close> and a \<^verbatim>\<open>post\<close> through such an instance.\<close>

record AxiosInstance =
  baseURL :: string
  instance_headers :: "(string \<times> string) list"

record AxiosPost =
  post_instance :: AxiosInstance
  post_url :: string
  post_data :: FormData
  post_headers :: "(string \<times> string) list"

record AxiosResponse =
  axios_status :: nat
  data :: string

section \<open>Effects\<close>

text \<open>
  The text of a notice or of a console line, one constructor per template of the source,
  with the values the template interpolates:
  \<^item> \<open>Found_Quivr_files names\<close>: \<^verbatim>\<open>Found Quivr files: ${names.join(', ')}\<close>
  \<^item> \<open>Found_existing_folder n\<close>: \<^verbatim>\<open>Found existing folder: ${n}\<close>
  \<^item> \<open>Creating_new_folder\<close>: \<^verbatim>\<open>Creating new folder in Quivr...\<close>
  \<^item> \<open>Uploading_file n\<close>: \<^verbatim>\<open>Uploading file: ${n}\<close>
  \<^item> \<open>Failed_to_determine_folder_ID\<close>: \<^verbatim>\<open>Failed to determine folder ID for uploads.\<close>
  \<^item> \<open>Failed_to_fetch_files s\<close>: \<^verbatim>\<open>Failed to fetch files: ${s} ${response.json}\<close>
  \<^item> \<open>Error_fetching_files e\<close>: \<^verbatim>\<open>'Error fetching files:', e\<close>
  \<^item> \<open>Error_fetching_files_Check_console\<close>: \<^verbatim>\<open>Error fetching files. Check console for details.\<close>
  \<^item> \<open>Folder_created_successfully n i\<close>: \<^verbatim>\<open>Folder "${n}" created successfully with ID: ${i}.\<close>
  \<^item> \<open>Failed_to_create_folder n\<close>: \<^verbatim>\<open>Failed to create folder "${n}".\<close>
  \<^item> \<open>Response_json\<close>: the \<^verbatim>\<open>response.json\<close> of the failed creation, shown as it is
  \<^item> \<open>Error_creating_folder_with n e\<close>: \<^verbatim>\<open>`Error creating folder "${n}":`, e\<close>
  \<^item> \<open>Error_creating_folder n\<close>: \<^verbatim>\<open>Error creating folder "${n}".\<close>
  \<^item> \<open>File_uploaded_successfully n\<close>: \<^verbatim>\<open>File uploaded successfully: ${n}\<close>
  \<^item> \<open>Error_uploading_file n e\<close>: \<^verbatim>\<open>Error uploading file "${n}": ${e}\<close>
\<close>

datatype message =
    Found_Quivr_files "string list"
  | Found_existing_folder string
  | Creating_new_folder
  | Uploading_file string
  | Failed_to_determine_folder_ID
  | Failed_to_fetch_files nat
  | Error_fetching_files exn
  | Error_fetching_files_Check_console
  | Folder_created_successfully string "string option"
  | Failed_to_create_folder string
  | Response_json
  | Error_creating_folder_with string exn
  | Error_creating_folder string
  | File_uploaded_successfully string
  | Error_uploading_file string exn

text \<open>
  What a run does, in the order it does it: the methods of the plugin it enters (with their
  arguments), the requests it sends, the reads of the vault, the notices it shows
  (\<open>Notice_for m ms\<close> is \<^verbatim>\<open>new Notice(m, ms)\<close>) and the console lines it writes.
\<close>

datatype event =
    Call_fetchFiles
  | Call_createFolder string
  | Call_uploadFile TFile "string option"
  | RequestUrl RequestUrlParam
  | VaultRead TFile
  | Post AxiosPost
  | Notice message
  | Notice_for message nat
  | ConsoleError message

text \<open>
  Everything outside the plugin: the settings, the vault and the remote service. The answer
  to a read or to a request may depend on all that happened before it (the events so far),
  so that no assumption is made on the service or on the network. \<open>Inl\<close> is a thrown error.
  \<^verbatim>\<open>requestUrl\<close> appears once per endpoint, with the type of the JSON that endpoint answers
  with: the array of items for \<^verbatim>\<open>GET /knowledge/files\<close>, and the \<^verbatim>\<open>id\<close> member of the object
  for \<^verbatim>\<open>POST /knowledge/\<close> (\<open>None\<close> when the member is absent or null).
\<close>

record world =
  settings :: MyPluginSettings
  getMarkdownFiles :: "TFile list"
  vault_read :: "event list \<Rightarrow> TFile \<Rightarrow> exn + string"
  requestUrl_GET :: "event list \<Rightarrow> RequestUrlParam \<Rightarrow> exn + RemoteItem list RequestUrlResponse"
  requestUrl_POST :: "event list \<Rightarrow> RequestUrlParam \<Rightarrow> exn + string option RequestUrlResponse"
  http_post :: "event list \<Rightarrow> AxiosPost \<Rightarrow> exn + AxiosResponse"

section \<open>\<^verbatim>\<open>JSON.stringify\<close> of an \<^verbatim>\<open>AddKnowledgeFileData\<close>\<close>

definition dquote :: char where
  "dquote = CHR 0x22"

definition backslash :: char where
  "backslash = CHR 0x5C"

definition CRLF :: string where
  "CRLF = [CHR 0x0D, CHR 0x0A]"

definition hex_digit :: "nat \<Rightarrow> char" where
  "hex_digit n = (if n < 10 then char_of (48 + n) else char_of (87 + n))"

text \<open>ECMAScript \<^verbatim>\<open>QuoteJSONString\<close>: the two-character escapes, \<^verbatim>\<open>\u00XX\<close> for the other
  control characters, every other character as it is.\<close>

definition QuoteJSONChar :: "char \<Rightarrow> string" where
  "QuoteJSONChar c =
     (if c = CHR 0x08 then [backslash, CHR ''b'']
      else if c = CHR 0x09 then [backslash, CHR ''t'']
      else if c = CHR 0x0A then [backslash, CHR ''n'']
      else if c = CHR 0x0C then [backslash, CHR ''f'']
      else if c = CHR 0x0D then [backslash, CHR ''r'']
      else if c = dquote then [backslash, dquote]
      else if c = backslash then [backslash, backslash]
      else if (of_char c :: nat) < 32
        then [backslash, CHR ''u'', CHR ''0'', CHR ''0'',
              hex_digit (of_char c div 16), hex_digit (of_char c mod 16)]
      else [c])"

definition QuoteJSONString :: "string \<Rightarrow> string" where
  "QuoteJSONString s = [dquote] @ concat (map QuoteJSONChar s) @ [dquote]"

definition JSON_stringify :: "AddKnowledgeFileData \<Rightarrow> string" where
  \<open>JSON_stringify k =
     ''{"parent_id":'' @ (case parent_id k of None \<Rightarrow> ''null'' | Some p \<Rightarrow> QuoteJSONString p)
     @ '',"file_name":'' @ QuoteJSONString (file_name k)
     @ '',"is_folder":'' @ (if is_folder k then ''true'' else ''false'') @ ''}''\<close>

section \<open>The plugin's methods\<close>

text \<open>
  A method takes the events so far and returns its result with the events extended.
  The result is \<open>Inl e\<close> when the method throws \<open>e\<close> to its caller.
\<close>

text \<open>The argument of \<^verbatim>\<open>requestUrl\<close> in \<^verbatim>\<open>fetchFiles\<close> (lines 108-115).\<close>

definition fetchFiles_request :: "world \<Rightarrow> RequestUrlParam" where
  "fetchFiles_request w =
     \<lparr>url = ''https://api.quivr.app/knowledge/files'', method = ''GET'',
      headers = [(''accept'', ''application/json''),
                 (''Authorization'', ''Bearer '' @ apiKey (settings w))],
      body = None\<rparr>"

text \<open>\<^verbatim>\<open>fetchFiles\<close> (lines 106-130).\<close>

definition fetchFiles :: "world \<Rightarrow> event list \<Rightarrow> (exn + RemoteItem list) \<times> event list" where
  "fetchFiles w t0 =
     (let t1 = t0 @ [Call_fetchFiles];
          t2 = t1 @ [RequestUrl (fetchFiles_request w)]
      in case requestUrl_GET w t1 (fetchFiles_request w) of
           Inr response \<Rightarrow>
             if status response = 200 then (Inr (json response), t2)
             else (Inr [], t2 @ [Notice (Failed_to_fetch_files (status response)),
                                 ConsoleError (Failed_to_fetch_files (status response))])
         | Inl error \<Rightarrow>
             (Inr [], t2 @ [ConsoleError (Error_fetching_files error),
                            Notice Error_fetching_files_Check_console]))"

text \<open>The body of the request of \<^verbatim>\<open>createFolder\<close>, the template literal of line 142.\<close>

definition createFolder_body :: "string \<Rightarrow> string" where
  \<open>createFolder_body folderName =
     ''------WebKitFormBoundaryjpD4mAhPBDMdS5QN'' @ CRLF
     @ ''Content-Disposition: form-data; name="knowledge_data"'' @ CRLF @ CRLF
     @ ''{"parent_id":null,"file_name":"'' @ folderName @ ''","is_folder":true}'' @ CRLF
     @ ''------WebKitFormBoundaryjpD4mAhPBDMdS5QN--'' @ CRLF\<close>

text \<open>The argument of \<^verbatim>\<open>requestUrl\<close> in \<^verbatim>\<open>createFolder\<close> (lines 134-143).\<close>

definition createFolder_request :: "world \<Rightarrow> string \<Rightarrow> RequestUrlParam" where
  "createFolder_request w folderName =
     \<lparr>url = ''https://api.quivr.app/knowledge/'', method = ''POST'',
      headers = [(''accept'', ''application/json''),
                 (''Authorization'', ''Bearer '' @ apiKey (settings w)),
                 (''content-type'',
                  ''multipart/form-data; boundary=----WebKitFormBoundaryjpD4mAhPBDMdS5QN'')],
      body = Some (createFolder_body folderName)\<rparr>"

text \<open>\<^verbatim>\<open>createFolder\<close> (lines 132-160).\<close>

definition createFolder :: "world \<Rightarrow> string \<Rightarrow> event list \<Rightarrow> (exn + string option) \<times> event list" where
  "createFolder w folderName t0 =
     (let t1 = t0 @ [Call_createFolder folderName];
          t2 = t1 @ [RequestUrl (createFolder_request w folderName)]
      in case requestUrl_POST w t1 (createFolder_request w folderName) of
           Inr response \<Rightarrow>
             if status response = 200 then
               (let folderId = json response
                in (Inr folderId, t2 @ [Notice (Folder_created_successfully folderName folderId)]))
             else (Inr None, t2 @ [Notice (Failed_to_create_folder folderName), Notice Response_json])
         | Inl error \<Rightarrow>
             (Inr None, t2 @ [ConsoleError (Error_creating_folder_with folderName error),
                              Notice (Error_creating_folder folderName)]))"

text \<open>
  \<^verbatim>\<open>axiosInstance.post\<close>: axios sends the request and, with its default \<^verbatim>\<open>validateStatus\<close>,
  rejects when the status of the response is outside 200..299.
\<close>

definition axios_post :: "world \<Rightarrow> AxiosPost \<Rightarrow> event list \<Rightarrow> (exn + AxiosResponse) \<times> event list" where
  "axios_post w req t0 =
     (let t1 = t0 @ [Post req]
      in case http_post w t0 req of
           Inl error \<Rightarrow> (Inl error, t1)
         | Inr response \<Rightarrow>
             if 200 \<le> axios_status response \<and> axios_status response < 300 then (Inr response, t1)
             else (Inl (AxiosError (axios_status response)), t1))"

text \<open>\<^verbatim>\<open>addKnowledgeFile\<close> (lines 23-39).\<close>

definition addKnowledgeFile ::
  "world \<Rightarrow> AddKnowledgeFileData \<Rightarrow> File \<Rightarrow> AxiosInstance \<Rightarrow> event list \<Rightarrow> (exn + string) \<times> event list" where
  "addKnowledgeFile w knowledgeData file axiosInstance t0 =
     (let formData = [(''knowledge_data'', Text (JSON_stringify knowledgeData)),
                      (''file'', FilePart file)]
      in case axios_post w \<lparr>post_instance = axiosInstance, post_url = ''/knowledge/'', post_data = formData,
                             post_headers = [(''Content-Type'', ''multipart/form-data'')]\<rparr> t0 of
           (Inl error, t1) \<Rightarrow> (Inl error, t1)
         | (Inr response, t1) \<Rightarrow> (Inr (data response), t1))"

text \<open>\<^verbatim>\<open>uploadFile\<close> (lines 189-214).\<close>

definition uploadFile :: "world \<Rightarrow> TFile \<Rightarrow> string option \<Rightarrow> event list \<Rightarrow> (exn + unit) \<times> event list" where
  "uploadFile w file parentId t0 =
     (let t1 = t0 @ [Call_uploadFile file parentId]
      in case vault_read w t1 file of
           Inl error \<Rightarrow>
             (Inr (), t1 @ [VaultRead file, Notice_for (Error_uploading_file (name file) error) 10000])
         | Inr fileContent \<Rightarrow>
             (let blob = new_Blob [fileContent]
                           (if extension file = ''md'' then ''text/markdown'' else ''application/pdf'');
                  fileToUpload = new_File [blob] (name file);
                  knowledgeData = \<lparr>parent_id = parentId, file_name = name file, is_folder = False\<rparr>;
                  axiosInstance = \<lparr>baseURL = ''https://api.quivr.app'',
                                   instance_headers =
                                     [(''Authorization'', ''Bearer '' @ apiKey (settings w))]\<rparr>
              in case addKnowledgeFile w knowledgeData fileToUpload axiosInstance (t1 @ [VaultRead file]) of
                   (Inr response, t2) \<Rightarrow>
                     (Inr (), t2 @ [Notice (File_uploaded_successfully (name file))])
                 | (Inl error, t2) \<Rightarrow>
                     (Inr (), t2 @ [Notice_for (Error_uploading_file (name file) error) 10000])))"

text \<open>JavaScript's truthiness of a \<^verbatim>\<open>string | null\<close> (line 179): \<^verbatim>\<open>null\<close> and the empty string
  are falsy, every other string is truthy.\<close>

definition truthy :: "string option \<Rightarrow> bool" where
  "truthy v = (case v of None \<Rightarrow> False | Some s \<Rightarrow> s \<noteq> [])"

text \<open>
  \<^verbatim>\<open>exploreAndUpload\<close>, lines 166-177: the search for the folder among the fetched items
  and the creation of the folder when the search finds none. An item is an object, and
  objects are truthy, so \<^verbatim>\<open>if (existingFolder)\<close> asks whether \<^verbatim>\<open>find\<close> found one.
\<close>

definition exploreAndUpload_reconcile ::
  "world \<Rightarrow> RemoteItem list \<Rightarrow> event list \<Rightarrow> (exn + string option) \<times> event list" where
  "exploreAndUpload_reconcile w files t0 =
     (case find (\<lambda>file. file_name file = ''obsidian-sync'' \<and> is_folder file) files of
        Some existingFolder \<Rightarrow>
          (Inr (Some (id' existingFolder)),
           t0 @ [Notice (Found_existing_folder (file_name existingFolder))])
      | None \<Rightarrow> createFolder w ''obsidian-sync'' (t0 @ [Notice Creating_new_folder]))"

text \<open>\<^verbatim>\<open>exploreAndUpload\<close>, lines 180-183: the loop over the markdown files. A call of
  \<^verbatim>\<open>uploadFile\<close> that throws ends the loop and the method.\<close>

fun exploreAndUpload_loop ::
  "world \<Rightarrow> string option \<Rightarrow> TFile list \<Rightarrow> event list \<Rightarrow> (exn + unit) \<times> event list" where
  "exploreAndUpload_loop w obsidianSyncFolderId [] t0 = (Inr (), t0)"
| "exploreAndUpload_loop w obsidianSyncFolderId (file # rest) t0 =
     (case uploadFile w file obsidianSyncFolderId (t0 @ [Notice (Uploading_file (name file))]) of
        (Inl error, t1) \<Rightarrow> (Inl error, t1)
      | (Inr u, t1) \<Rightarrow> exploreAndUpload_loop w obsidianSyncFolderId rest t1)"

text \<open>\<^verbatim>\<open>exploreAndUpload\<close> (lines 162-187).\<close>

definition exploreAndUpload :: "world \<Rightarrow> event list \<Rightarrow> (exn + unit) \<times> event list" where
  "exploreAndUpload w t0 =
     (let markdownFiles = getMarkdownFiles w
      in case fetchFiles w t0 of
           (Inl error, t1) \<Rightarrow> (Inl error, t1)
         | (Inr files, t1) \<Rightarrow>
             (case exploreAndUpload_reconcile w files
                     (t1 @ [Notice (Found_Quivr_files (map file_name files))]) of
                (Inl error, t2) \<Rightarrow> (Inl error, t2)
              | (Inr obsidianSyncFolderId, t2) \<Rightarrow>
                  if truthy obsidianSyncFolderId
                  then exploreAndUpload_loop w obsidianSyncFolderId markdownFiles t2
                  else (Inr (), t2 @ [Notice Failed_to_determine_folder_ID])))"

section \<open>Observing a run\<close>

text \<open>The calls of \<^verbatim>\<open>uploadFile\<close> among the events, each with its file and its \<^verbatim>\<open>parentId\<close>.\<close>

fun upload_call_of :: "event \<Rightarrow> (TFile \<times> string option) list" where
  "upload_call_of (Call_uploadFile file parentId) = [(file, parentId)]"
| "upload_call_of e = []"

definition upload_calls :: "event list \<Rightarrow> (TFile \<times> string option) list" where
  "upload_calls t = concat (map upload_call_of t)"

text \<open>The calls of \<^verbatim>\<open>createFolder\<close>, each with its folder name.\<close>

fun create_call_of :: "event \<Rightarrow> string list" where
  "create_call_of (Call_createFolder folderName) = [folderName]"
| "create_call_of e = []"

definition create_calls :: "event list \<Rightarrow> string list" where
  "create_calls t = concat (map create_call_of t)"

text \<open>The requests sent through \<^verbatim>\<open>requestUrl\<close>, and those sent through axios.\<close>

fun request_of :: "event \<Rightarrow> RequestUrlParam list" where
  "request_of (RequestUrl r) = [r]"
| "request_of e = []"

definition requests :: "event list \<Rightarrow> RequestUrlParam list" where
  "requests t = concat (map request_of t)"

fun post_of :: "event \<Rightarrow> AxiosPost list" where
  "post_of (Post p) = [p]"
| "post_of e = []"

definition posts :: "event list \<Rightarrow> AxiosPost list" where
  "posts t = concat (map post_of t)"

text \<open>
  The request that \<^verbatim>\<open>uploadFile\<close> posts for a file whose content was read (lines 192-208 with
  lines 28-37): the axios instance, the path, the two fields of the form and the header.
\<close>

definition uploadFile_request :: "world \<Rightarrow> TFile \<Rightarrow> string option \<Rightarrow> string \<Rightarrow> AxiosPost" where
  "uploadFile_request w file parentId fileContent =
     \<lparr>post_instance =
        \<lparr>baseURL = ''https://api.quivr.app'',
         instance_headers = [(''Authorization'', ''Bearer '' @ apiKey (settings w))]\<rparr>,
      post_url = ''/knowledge/'',
      post_data =
        [(''knowledge_data'',
          Text (JSON_stringify \<lparr>parent_id = parentId, file_name = name file, is_folder = False\<rparr>)),
         (''file'', FilePart \<lparr>file_bits = fileContent, file_name' = name file, file_type = []\<rparr>)],
      post_headers = [(''Content-Type'', ''multipart/form-data'')]\<rparr>"

text \<open>The predicate of \<^verbatim>\<open>files.find\<close> on line 169.\<close>

definition is_sync_folder :: "RemoteItem \<Rightarrow> bool" where
  "is_sync_folder file = (file_name file = ''obsidian-sync'' \<and> is_folder file)"

section \<open>The wire formats the claims speak of\<close>

text \<open>
  A \<^verbatim>\<open>multipart/form-data\<close> body (RFC 7578) of text fields: each field after a delimiter
  line \<^verbatim>\<open>--boundary\<close> and its \<^verbatim>\<open>Content-Disposition\<close> header, then the closing delimiter.
\<close>

definition multipart_field :: "string \<Rightarrow> string \<times> string \<Rightarrow> string" where
  \<open>multipart_field boundary f =
     ''--'' @ boundary @ CRLF
     @ ''Content-Disposition: form-data; name="'' @ fst f @ ''"'' @ CRLF @ CRLF
     @ snd f @ CRLF\<close>

definition multipart_form_data :: "string \<Rightarrow> (string \<times> string) list \<Rightarrow> string" where
  "multipart_form_data boundary fs =
     concat (map (multipart_field boundary) fs) @ ''--'' @ boundary @ ''--'' @ CRLF"

text \<open>
  Reading back the JSON text of an \<^verbatim>\<open>AddKnowledgeFileData\<close>, as \<^verbatim>\<open>JSON.parse\<close> does on the
  compact form that \<^verbatim>\<open>JSON.stringify\<close> writes: a string literal ends at the first quote
  that no backslash escapes, an unescaped control character is an error, and so is
  anything that is not the three members in their order. \<open>None\<close> is a syntax error.
\<close>

definition hex_value :: "char \<Rightarrow> nat option" where
  "hex_value c =
     (let n = (of_char c :: nat)
      in if 48 \<le> n \<and> n \<le> 57 then Some (n - 48)
         else if 97 \<le> n \<and> n \<le> 102 then Some (n - 87)
         else if 65 \<le> n \<and> n \<le> 70 then Some (n - 55)
         else None)"

definition unescape_u :: "char \<Rightarrow> char \<Rightarrow> char \<Rightarrow> char \<Rightarrow> char option" where
  "unescape_u a b c d =
     (case (hex_value a, hex_value b, hex_value c, hex_value d) of
        (Some x3, Some x2, Some x1, Some x0) \<Rightarrow>
          if x3 = 0 \<and> x2 = 0 \<and> x1 < 8 then Some (char_of (16 * x1 + x0)) else None
      | _ \<Rightarrow> None)"

definition unescape :: "char \<Rightarrow> char option" where
  "unescape e =
     (if e = dquote then Some dquote
      else if e = backslash then Some backslash
      else if e = CHR ''/'' then Some CHR ''/''
      else if e = CHR ''b'' then Some CHR 0x08
      else if e = CHR ''t'' then Some CHR 0x09
      else if e = CHR ''n'' then Some CHR 0x0A
      else if e = CHR ''f'' then Some CHR 0x0C
      else if e = CHR ''r'' then Some CHR 0x0D
      else None)"

definition consume :: "char option \<Rightarrow> (string \<times> string) option \<Rightarrow> (string \<times> string) option" where
  "consume c r =
     (case (c, r) of (Some x, Some (s, rest)) \<Rightarrow> Some (x # s, rest) | _ \<Rightarrow> None)"

fun JSON_unquote :: "string \<Rightarrow> (string \<times> string) option" where
  "JSON_unquote [] = None"
| "JSON_unquote (c # cs) =
     (if c = dquote then Some ([], cs)
      else if c = backslash then
        (case cs of
           [] \<Rightarrow> None
         | e # es \<Rightarrow>
             if e = CHR ''u'' then
               (case es of
                  h3 # h2 # h1 # h0 # rest \<Rightarrow> consume (unescape_u h3 h2 h1 h0) (JSON_unquote rest)
                | _ \<Rightarrow> None)
             else consume (unescape e) (JSON_unquote es))
      else if (of_char c :: nat) < 32 then None
      else consume (Some c) (JSON_unquote cs))"

definition JSON_parse_string :: "string \<Rightarrow> (string \<times> string) option" where
  "JSON_parse_string s =
     (case s of [] \<Rightarrow> None | c # cs \<Rightarrow> if c = dquote then JSON_unquote cs else None)"

definition expect :: "string \<Rightarrow> string \<Rightarrow> string option" where
  "expect lit s = (if take (length lit) s = lit then Some (drop (length lit) s) else None)"

definition JSON_parse_nullable :: "string \<Rightarrow> (string option \<times> string) option" where
  "JSON_parse_nullable s =
     (case expect ''null'' s of
        Some rest \<Rightarrow> Some (None, rest)
      | None \<Rightarrow> (case JSON_parse_string s of Some (p, rest) \<Rightarrow> Some (Some p, rest) | None \<Rightarrow> None))"

definition JSON_parse_bool :: "string \<Rightarrow> (bool \<times> string) option" where
  "JSON_parse_bool s =
     (case expect ''true'' s of
        Some rest \<Rightarrow> Some (True, rest)
      | None \<Rightarrow> (case expect ''false'' s of Some rest \<Rightarrow> Some (False, rest) | None \<Rightarrow> None))"

definition JSON_parse :: "string \<Rightarrow> AddKnowledgeFileData option" where
  \<open>JSON_parse s =
     (case expect ''{"parent_id":'' s of
        None \<Rightarrow> None
      | Some s1 \<Rightarrow>
     (case JSON_parse_nullable s1 of
        None \<Rightarrow> None
      | Some (p, s2) \<Rightarrow>
     (case expect '',"file_name":'' s2 of
        None \<Rightarrow> None
      | Some s3 \<Rightarrow>
     (case JSON_parse_string s3 of
        None \<Rightarrow> None
      | Some (n, s4) \<Rightarrow>
     (case expect '',"is_folder":'' s4 of
        None \<Rightarrow> None
      | Some s5 \<Rightarrow>
     (case JSON_parse_bool s5 of
        None \<Rightarrow> None
      | Some (b, s6) \<Rightarrow>
          if s6 = ''}'' then Some \<lparr>parent_id = p, file_name = n, is_folder = b\<rparr> else None))))))\<close>

text \<open>A request posted through axios carries the folder id: its \<^verbatim>\<open>knowledge_data\<close> field is the
  JSON text of the metadata of one of the files, with that id as \<^verbatim>\<open>parent_id\<close>.\<close>

definition carries :: "string option \<Rightarrow> TFile list \<Rightarrow> AxiosPost \<Rightarrow> bool" where
  "carries fid fs p =
     (\<exists>file \<in> set fs. map_of (post_data p) ''knowledge_data'' =
        Some (Text (JSON_stringify \<lparr>parent_id = fid, file_name = name file, is_folder = False\<rparr>)))"

section \<open>Concrete vaults and services\<close>

definition notes_md :: TFile where
  "notes_md = \<lparr>path = ''notes.md'', name = ''notes.md'', extension = ''md''\<rparr>"

definition todo_md :: TFile where
  "todo_md = \<lparr>path = ''work/todo.md'', name = ''todo.md'', extension = ''md''\<rparr>"

definition ideas_md :: TFile where
  "ideas_md = \<lparr>path = ''ideas.md'', name = ''ideas.md'', extension = ''md''\<rparr>"

definition readme_item :: RemoteItem where
  "readme_item = \<lparr>parent_id = None, file_name = ''readme.txt'', is_folder = False, id' = ''file-9''\<rparr>"

definition nested_folder :: RemoteItem where
  "nested_folder =
     \<lparr>parent_id = Some ''folder-7'', file_name = ''obsidian-sync'', is_folder = True, id' = ''folder-2''\<rparr>"

definition sync_folder :: RemoteItem where
  "sync_folder = \<lparr>parent_id = None, file_name = ''obsidian-sync'', is_folder = True, id' = ''folder-1''\<rparr>"

definition world_found :: world where
  "world_found =
     \<lparr>settings = \<lparr>apiKey = ''secret''\<rparr>,
      getMarkdownFiles = [notes_md, todo_md, ideas_md],
      vault_read = (\<lambda>t f. if f = todo_md then Inl (Error ''ENOENT'') else Inr ''# Hello''),
      requestUrl_GET = (\<lambda>t r. Inr \<lparr>status = 200, json = [readme_item, nested_folder, sync_folder]\<rparr>),
      requestUrl_POST = (\<lambda>t r. Inr \<lparr>status = 200, json = Some ''folder-3''\<rparr>),
      http_post = (\<lambda>t p. if posts t = [] then Inr \<lparr>axios_status = 500, data = []\<rparr>
                           else Inr \<lparr>axios_status = 200, data = ''{}''\<rparr>)\<rparr>"

definition world_absent :: world where
  "world_absent =
     world_found\<lparr>requestUrl_GET := (\<lambda>t r. Inr \<lparr>status = 200, json = [readme_item]\<rparr>)\<rparr>"

definition world_unresolved :: world where
  "world_unresolved =
     world_found\<lparr>requestUrl_GET := (\<lambda>t r. Inl (Error ''net::ERR_FAILED'')),
                 requestUrl_POST := (\<lambda>t r. Inr \<lparr>status = 500, json = None\<rparr>)\<rparr>"

definition world_empty_id :: world where
  "world_empty_id =
     world_found\<lparr>requestUrl_GET := (\<lambda>t r. Inr \<lparr>status = 200, json = [sync_folder\<lparr>id' := []\<rparr>]\<rparr>)\<rparr>"

definition world_no_documents :: world where
  "world_no_documents = world_absent\<lparr>getMarkdownFiles := []\<rparr>"

definition world_flaky :: world where
  "world_flaky =
     world_found\<lparr>requestUrl_GET :=
       (\<lambda>t r. if requests t = [] then Inl (Error ''net::ERR_CONNECTION_RESET'')
               else Inr \<lparr>status = 200,
                        json = sync_folder #
                          (if create_calls t = [] then [] else [sync_folder\<lparr>id' := ''folder-3''\<rparr>])\<rparr>)\<rparr>"

definition world_forbidden :: world where
  "world_forbidden = world_found\<lparr>requestUrl_GET := (\<lambda>t r. Inr \<lparr>status = 403, json = []\<rparr>)\<rparr>"

section \<open>How each method extends the events\<close>

lemma upload_calls_simps [simp]:
  "upload_calls [] = []"
  "upload_calls (e # t) = upload_call_of e @ upload_calls t"
  "upload_calls (t @ u) = upload_calls t @ upload_calls u"
  by (simp_all add: upload_calls_def)

lemma create_calls_simps [simp]:
  "create_calls [] = []"
  "create_calls (e # t) = create_call_of e @ create_calls t"
  "create_calls (t @ u) = create_calls t @ create_calls u"
  by (simp_all add: create_calls_def)

lemma requests_simps [simp]:
  "requests [] = []"
  "requests (e # t) = request_of e @ requests t"
  "requests (t @ u) = requests t @ requests u"
  by (simp_all add: requests_def)

lemma posts_simps [simp]:
  "posts [] = []"
  "posts (e # t) = post_of e @ posts t"
  "posts (t @ u) = posts t @ posts u"
  by (simp_all add: posts_def)

lemma fetchFiles_cases:
  "fetchFiles w t0 =
     (case requestUrl_GET w (t0 @ [Call_fetchFiles]) (fetchFiles_request w) of
        Inr response \<Rightarrow>
          if status response = 200
          then (Inr (json response), t0 @ [Call_fetchFiles, RequestUrl (fetchFiles_request w)])
          else (Inr [], t0 @ [Call_fetchFiles, RequestUrl (fetchFiles_request w),
                               Notice (Failed_to_fetch_files (status response)),
                               ConsoleError (Failed_to_fetch_files (status response))])
      | Inl error \<Rightarrow>
          (Inr [], t0 @ [Call_fetchFiles, RequestUrl (fetchFiles_request w),
                          ConsoleError (Error_fetching_files error),
                          Notice Error_fetching_files_Check_console]))"
  by (simp add: fetchFiles_def Let_def split: sum.splits)

lemma fetchFiles_returns: "\<exists>files. fst (fetchFiles w t0) = Inr files"
  by (simp add: fetchFiles_cases split: sum.splits)

lemma fetchFiles_events:
  "upload_calls (snd (fetchFiles w t0)) = upload_calls t0"
  "create_calls (snd (fetchFiles w t0)) = create_calls t0"
  "requests (snd (fetchFiles w t0)) = requests t0 @ [fetchFiles_request w]"
  "posts (snd (fetchFiles w t0)) = posts t0"
  by (simp_all add: fetchFiles_cases split: sum.splits)

lemma createFolder_cases:
  "createFolder w folderName t0 =
     (case requestUrl_POST w (t0 @ [Call_createFolder folderName]) (createFolder_request w folderName) of
        Inr response \<Rightarrow>
          if status response = 200
          then (Inr (json response),
                t0 @ [Call_createFolder folderName, RequestUrl (createFolder_request w folderName),
                      Notice (Folder_created_successfully folderName (json response))])
          else (Inr None,
                t0 @ [Call_createFolder folderName, RequestUrl (createFolder_request w folderName),
                      Notice (Failed_to_create_folder folderName), Notice Response_json])
      | Inl error \<Rightarrow>
          (Inr None,
           t0 @ [Call_createFolder folderName, RequestUrl (createFolder_request w folderName),
                 ConsoleError (Error_creating_folder_with folderName error),
                 Notice (Error_creating_folder folderName)]))"
  by (simp add: createFolder_def Let_def split: sum.splits)

lemma createFolder_returns: "\<exists>r. fst (createFolder w folderName t0) = Inr r"
  by (simp add: createFolder_cases split: sum.splits)

lemma createFolder_events:
  "upload_calls (snd (createFolder w folderName t0)) = upload_calls t0"
  "create_calls (snd (createFolder w folderName t0)) = create_calls t0 @ [folderName]"
  "requests (snd (createFolder w folderName t0)) = requests t0 @ [createFolder_request w folderName]"
  "posts (snd (createFolder w folderName t0)) = posts t0"
  by (simp_all add: createFolder_cases split: sum.splits)

lemma uploadFile_returns: "fst (uploadFile w file parentId t0) = Inr ()"
  by (simp add: uploadFile_def Let_def split: sum.splits prod.splits)

lemma axios_post_events:
  "upload_calls (snd (axios_post w req t0)) = upload_calls t0"
  "create_calls (snd (axios_post w req t0)) = create_calls t0"
  "requests (snd (axios_post w req t0)) = requests t0"
  "posts (snd (axios_post w req t0)) = posts t0 @ [req]"
  by (simp_all add: axios_post_def Let_def split: sum.splits)

lemma addKnowledgeFile_events:
  "upload_calls (snd (addKnowledgeFile w k f a t0)) = upload_calls t0"
  "create_calls (snd (addKnowledgeFile w k f a t0)) = create_calls t0"
  "requests (snd (addKnowledgeFile w k f a t0)) = requests t0"
  "posts (snd (addKnowledgeFile w k f a t0)) =
     posts t0 @ [\<lparr>post_instance = a, post_url = ''/knowledge/'',
                   post_data = [(''knowledge_data'', Text (JSON_stringify k)), (''file'', FilePart f)],
                   post_headers = [(''Content-Type'', ''multipart/form-data'')]\<rparr>]"
  by (simp_all add: addKnowledgeFile_def axios_post_def Let_def split: sum.splits prod.splits)

lemma uploadFile_cases:
  "uploadFile w file parentId t0 =
     (case vault_read w (t0 @ [Call_uploadFile file parentId]) file of
        Inl error \<Rightarrow>
          (Inr (), t0 @ [Call_uploadFile file parentId, VaultRead file,
                         Notice_for (Error_uploading_file (name file) error) 10000])
      | Inr fileContent \<Rightarrow>
          (case addKnowledgeFile w \<lparr>parent_id = parentId, file_name = name file, is_folder = False\<rparr>
                  (new_File [new_Blob [fileContent]
                     (if extension file = ''md'' then ''text/markdown'' else ''application/pdf'')]
                     (name file))
                  \<lparr>baseURL = ''https://api.quivr.app'',
                   instance_headers = [(''Authorization'', ''Bearer '' @ apiKey (settings w))]\<rparr>
                  (t0 @ [Call_uploadFile file parentId, VaultRead file]) of
             (Inr response, t2) \<Rightarrow> (Inr (), t2 @ [Notice (File_uploaded_successfully (name file))])
           | (Inl error, t2) \<Rightarrow>
               (Inr (), t2 @ [Notice_for (Error_uploading_file (name file) error) 10000])))"
  by (simp add: uploadFile_def Let_def split: sum.splits prod.splits)

text \<open>
  All that a call of \<^verbatim>\<open>uploadFile\<close> does, in each of its outcomes: it returns without
  throwing, and a read that throws, a request that throws and an answer that axios rejects
  each end in the notice of the \<^verbatim>\<open>catch\<close> block.
\<close>

lemma uploadFile_trace:
  "uploadFile w file parentId t0 =
     (Inr (),
      t0 @ Call_uploadFile file parentId # VaultRead file #
        (case vault_read w (t0 @ [Call_uploadFile file parentId]) file of
           Inl error \<Rightarrow> [Notice_for (Error_uploading_file (name file) error) 10000]
         | Inr fileContent \<Rightarrow>
             Post (uploadFile_request w file parentId fileContent) #
             (case http_post w (t0 @ [Call_uploadFile file parentId, VaultRead file])
                     (uploadFile_request w file parentId fileContent) of
                Inl error \<Rightarrow> [Notice_for (Error_uploading_file (name file) error) 10000]
              | Inr response \<Rightarrow>
                  if 200 \<le> axios_status response \<and> axios_status response < 300
                  then [Notice (File_uploaded_successfully (name file))]
                  else [Notice_for (Error_uploading_file (name file)
                                      (AxiosError (axios_status response))) 10000])))"
  by (simp add: uploadFile_def addKnowledgeFile_def axios_post_def uploadFile_request_def
      new_File_def new_Blob_def Let_def split: sum.splits)

lemma uploadFile_events:
  "upload_calls (snd (uploadFile w file parentId t0)) = upload_calls t0 @ [(file, parentId)]"
  "create_calls (snd (uploadFile w file parentId t0)) = create_calls t0"
  "requests (snd (uploadFile w file parentId t0)) = requests t0"
proof -
  have a: "\<And>k f a t x y. addKnowledgeFile w k f a t = (x, y) \<Longrightarrow>
      upload_calls y = upload_calls t \<and> create_calls y = create_calls t \<and> requests y = requests t"
    using addKnowledgeFile_events by (metis snd_conv)
  show "upload_calls (snd (uploadFile w file parentId t0)) = upload_calls t0 @ [(file, parentId)]"
    by (auto simp: uploadFile_cases split: sum.splits prod.splits dest!: a)
  show "create_calls (snd (uploadFile w file parentId t0)) = create_calls t0"
    by (auto simp: uploadFile_cases split: sum.splits prod.splits dest!: a)
  show "requests (snd (uploadFile w file parentId t0)) = requests t0"
    by (auto simp: uploadFile_cases split: sum.splits prod.splits dest!: a)
qed

lemma uploadFile_posts:
  "posts (snd (uploadFile w file parentId t0)) =
     posts t0 @
     (case vault_read w (t0 @ [Call_uploadFile file parentId]) file of
        Inl error \<Rightarrow> []
      | Inr fileContent \<Rightarrow> [uploadFile_request w file parentId fileContent])"
  by (simp add: uploadFile_trace split: sum.splits)

lemma loop_returns: "fst (exploreAndUpload_loop w fid fs t0) = Inr ()"
proof (induction fs arbitrary: t0)
  case Nil
  show ?case by simp
next
  case (Cons doc rest)
  obtain r t1 where u: "uploadFile w doc fid (t0 @ [Notice (Uploading_file (name doc))]) = (r, t1)"
    by (cases "uploadFile w doc fid (t0 @ [Notice (Uploading_file (name doc))])")
  with uploadFile_returns [of w doc fid "t0 @ [Notice (Uploading_file (name doc))]"]
  have "r = Inr ()" by simp
  with u Cons.IH [of t1] show ?case by simp
qed

lemma loop_step:
  "exploreAndUpload_loop w fid (doc # rest) t0 =
     exploreAndUpload_loop w fid rest
       (snd (uploadFile w doc fid (t0 @ [Notice (Uploading_file (name doc))])))"
proof -
  obtain r t1 where u: "uploadFile w doc fid (t0 @ [Notice (Uploading_file (name doc))]) = (r, t1)"
    by (cases "uploadFile w doc fid (t0 @ [Notice (Uploading_file (name doc))])")
  with uploadFile_returns [of w doc fid "t0 @ [Notice (Uploading_file (name doc))]"]
  have "r = Inr ()" by simp
  with u show ?thesis by simp
qed

lemma loop_append:
  "exploreAndUpload_loop w fid (pre @ post) t0 =
     exploreAndUpload_loop w fid post (snd (exploreAndUpload_loop w fid pre t0))"
  by (induction pre arbitrary: t0) (simp_all only: loop_step append_Nil append_Cons exploreAndUpload_loop.simps snd_conv)

lemma loop_events:
  "upload_calls (snd (exploreAndUpload_loop w fid fs t0)) = upload_calls t0 @ map (\<lambda>f. (f, fid)) fs"
  "create_calls (snd (exploreAndUpload_loop w fid fs t0)) = create_calls t0"
  "requests (snd (exploreAndUpload_loop w fid fs t0)) = requests t0"
proof -
  show "upload_calls (snd (exploreAndUpload_loop w fid fs t0)) = upload_calls t0 @ map (\<lambda>f. (f, fid)) fs"
    by (induction fs arbitrary: t0) (simp_all add: loop_step uploadFile_events del: exploreAndUpload_loop.simps(2))
  show "create_calls (snd (exploreAndUpload_loop w fid fs t0)) = create_calls t0"
    by (induction fs arbitrary: t0) (simp_all add: loop_step uploadFile_events del: exploreAndUpload_loop.simps(2))
  show "requests (snd (exploreAndUpload_loop w fid fs t0)) = requests t0"
    by (induction fs arbitrary: t0) (simp_all add: loop_step uploadFile_events del: exploreAndUpload_loop.simps(2))
qed

lemma loop_posts:
  "\<exists>ps. posts (snd (exploreAndUpload_loop w fid fs t0)) = posts t0 @ ps \<and> length ps \<le> length fs
        \<and> list_all (carries fid fs) ps"
proof (induction fs arbitrary: t0)
  case Nil
  show ?case by simp
next
  case (Cons doc rest)
  let ?t1 = "snd (uploadFile w doc fid (t0 @ [Notice (Uploading_file (name doc))]))"
  obtain ps where ps: "posts (snd (exploreAndUpload_loop w fid rest ?t1)) = posts ?t1 @ ps"
    "length ps \<le> length rest" "list_all (carries fid rest) ps"
    using Cons.IH [of ?t1] by blast
  obtain q where q: "posts ?t1 = posts t0 @ q" "length q \<le> 1" "list_all (carries fid [doc]) q"
    by (cases "vault_read w (t0 @ [Notice (Uploading_file (name doc)), Call_uploadFile doc fid]) doc")
       (simp_all add: uploadFile_posts uploadFile_request_def carries_def)
  have mono: "\<And>A B p. set A \<subseteq> set B \<Longrightarrow> carries fid A p \<Longrightarrow> carries fid B p"
    by (auto simp: carries_def)
  have "list_all (carries fid (doc # rest)) (q @ ps)"
    using q(3) ps(3) mono [of "[doc]" "doc # rest"] mono [of rest "doc # rest"]
    by (auto simp: list_all_iff)
  moreover have "length (q @ ps) \<le> length (doc # rest)" using q(2) ps(2) by simp
  moreover have "posts (snd (exploreAndUpload_loop w fid (doc # rest) t0)) = posts t0 @ (q @ ps)"
    using ps(1) q(1) by (simp only: loop_step append_assoc)
  ultimately show ?case by blast
qed

lemmas data_defs = notes_md_def todo_md_def ideas_md_def readme_item_def nested_folder_def
  sync_folder_def world_found_def

lemmas run_defs = exploreAndUpload_def exploreAndUpload_reconcile_def fetchFiles_def
  fetchFiles_request_def createFolder_def createFolder_request_def uploadFile_def
  addKnowledgeFile_def axios_post_def truthy_def new_Blob_def new_File_def Let_def

lemma is_sync_folder_pred:
  "(\<lambda>file. file_name file = ''obsidian-sync'' \<and> is_folder file) = is_sync_folder"
  by (simp add: is_sync_folder_def fun_eq_iff)

lemma find_first:
  "(\<forall>y \<in> set pre. \<not> P y) \<Longrightarrow> P x \<Longrightarrow> find P (pre @ x # post) = Some x"
  by (induction pre) simp_all

lemma reconcile_match:
  assumes "\<forall>y \<in> set pre. \<not> is_sync_folder y" and "is_sync_folder x"
  shows "exploreAndUpload_reconcile w (pre @ x # post) t0 =
           (Inr (Some (id' x)), t0 @ [Notice (Found_existing_folder ''obsidian-sync'')])"
proof -
  have "find is_sync_folder (pre @ x # post) = Some x"
    using assms by (rule find_first)
  moreover have "file_name x = ''obsidian-sync''"
    using assms(2) by (simp add: is_sync_folder_def)
  ultimately show ?thesis
    by (simp add: exploreAndUpload_reconcile_def is_sync_folder_pred)
qed

lemma reconcile_no_match:
  assumes "\<forall>y \<in> set files. \<not> is_sync_folder y"
  shows "exploreAndUpload_reconcile w files t0 =
           createFolder w ''obsidian-sync'' (t0 @ [Notice Creating_new_folder])"
proof -
  have "find is_sync_folder files = None"
    using assms by (simp add: find_None_iff)
  then show ?thesis
    by (simp add: exploreAndUpload_reconcile_def is_sync_folder_pred)
qed

lemma reconcile_returns: "\<exists>r. fst (exploreAndUpload_reconcile w files t0) = Inr r"
  using createFolder_returns [of w "''obsidian-sync''" "t0 @ [Notice Creating_new_folder]"]
  by (simp add: exploreAndUpload_reconcile_def split: option.splits)

lemma reconcile_events:
  "upload_calls (snd (exploreAndUpload_reconcile w files t0)) = upload_calls t0"
  "posts (snd (exploreAndUpload_reconcile w files t0)) = posts t0"
  "create_calls (snd (exploreAndUpload_reconcile w files t0)) =
     create_calls t0 @ (if \<exists>x \<in> set files. is_sync_folder x then [] else [''obsidian-sync''])"
  "requests (snd (exploreAndUpload_reconcile w files t0)) =
     requests t0 @ (if \<exists>x \<in> set files. is_sync_folder x then []
                    else [createFolder_request w ''obsidian-sync''])"
proof -
  have n: "find is_sync_folder files = None \<longleftrightarrow> \<not> (\<exists>x \<in> set files. is_sync_folder x)"
    by (auto simp: find_None_iff)
  show "upload_calls (snd (exploreAndUpload_reconcile w files t0)) = upload_calls t0"
    by (simp add: exploreAndUpload_reconcile_def createFolder_events split: option.splits)
  show "posts (snd (exploreAndUpload_reconcile w files t0)) = posts t0"
    by (simp add: exploreAndUpload_reconcile_def createFolder_events split: option.splits)
  show "create_calls (snd (exploreAndUpload_reconcile w files t0)) =
     create_calls t0 @ (if \<exists>x \<in> set files. is_sync_folder x then [] else [''obsidian-sync''])"
    using n by (cases "find is_sync_folder files")
      (simp_all add: exploreAndUpload_reconcile_def is_sync_folder_pred createFolder_events)
  show "requests (snd (exploreAndUpload_reconcile w files t0)) =
     requests t0 @ (if \<exists>x \<in> set files. is_sync_folder x then []
                    else [createFolder_request w ''obsidian-sync''])"
    using n by (cases "find is_sync_folder files")
      (simp_all add: exploreAndUpload_reconcile_def is_sync_folder_pred createFolder_events)
qed

text \<open>The run, once the listing and the resolution of the folder are known.\<close>

lemma exploreAndUpload_unfold:
  assumes "fetchFiles w t0 = (Inr files, t1)"
    and "exploreAndUpload_reconcile w files (t1 @ [Notice (Found_Quivr_files (map file_name files))])
           = (Inr r, t2)"
  shows "exploreAndUpload w t0 =
           (if truthy r then exploreAndUpload_loop w r (getMarkdownFiles w) t2
            else (Inr (), t2 @ [Notice Failed_to_determine_folder_ID]))"
  using assms by (simp add: exploreAndUpload_def)

lemma fetch_then_reconcile_events:
  assumes "fetchFiles w t0 = (Inr files, t1)"
    and "exploreAndUpload_reconcile w files (t1 @ [Notice (Found_Quivr_files (map file_name files))])
           = (Inr r, t2)"
  shows "upload_calls t2 = upload_calls t0" and "posts t2 = posts t0"
    and "create_calls t2 =
           create_calls t0 @ (if \<exists>x \<in> set files. is_sync_folder x then [] else [''obsidian-sync''])"
    and "requests t2 =
           requests t0 @ fetchFiles_request w #
             (if \<exists>x \<in> set files. is_sync_folder x then [] else [createFolder_request w ''obsidian-sync''])"
proof -
  have t1: "t1 = snd (fetchFiles w t0)" using assms(1) by simp
  have t2: "t2 = snd (exploreAndUpload_reconcile w files
                       (t1 @ [Notice (Found_Quivr_files (map file_name files))]))"
    using assms(2) by simp
  show "upload_calls t2 = upload_calls t0"
    by (simp add: t2 reconcile_events) (simp add: t1 fetchFiles_events)
  show "posts t2 = posts t0"
    by (simp add: t2 reconcile_events) (simp add: t1 fetchFiles_events)
  show "create_calls t2 =
           create_calls t0 @ (if \<exists>x \<in> set files. is_sync_folder x then [] else [''obsidian-sync''])"
    by (simp add: t2 reconcile_events) (simp add: t1 fetchFiles_events)
  show "requests t2 =
           requests t0 @ fetchFiles_request w #
             (if \<exists>x \<in> set files. is_sync_folder x then [] else [createFolder_request w ''obsidian-sync''])"
    by (simp add: t2 reconcile_events) (simp add: t1 fetchFiles_events)
qed

subsection \<open>Reading back what \<^verbatim>\<open>JSON.stringify\<close> writes\<close>

lemma hex_value_hex_digit: "m < 16 \<Longrightarrow> hex_value (hex_digit m) = Some m"
  by (auto simp: hex_value_def hex_digit_def Let_def)

lemma unescape_u_control:
  assumes "(of_char c :: nat) < 32"
  shows "unescape_u CHR ''0'' CHR ''0'' (hex_digit (of_char c div 16)) (hex_digit (of_char c mod 16))
           = Some c"
proof -
  let ?n = "of_char c :: nat"
  have d: "?n div 16 < 16" "?n mod 16 < 16" "?n div 16 < 8" using assms by simp_all
  have z: "hex_value CHR ''0'' = Some 0" by (simp add: hex_value_def)
  have "char_of (16 * (?n div 16) + ?n mod 16) = c" by simp
  then show ?thesis
    using d by (simp add: unescape_u_def z hex_value_hex_digit)
qed

lemma JSON_unquote_char:
  "JSON_unquote (QuoteJSONChar c @ s) = consume (Some c) (JSON_unquote s)"
proof (cases "(of_char c :: nat) < 32")
  case True
  then have q: "c \<noteq> dquote" "c \<noteq> backslash"
    by (auto simp: dquote_def backslash_def)
  show ?thesis
    using True unescape_u_control [OF True]
    by (auto simp: QuoteJSONChar_def unescape_def dquote_def backslash_def)
next
  case False
  then have "c \<noteq> CHR 0x08" "c \<noteq> CHR 0x09" "c \<noteq> CHR 0x0A" "c \<noteq> CHR 0x0C" "c \<noteq> CHR 0x0D"
    by auto
  with False show ?thesis
    by (auto simp: QuoteJSONChar_def unescape_def dquote_def backslash_def)
qed

lemma JSON_unquote_quoted:
  "JSON_unquote (concat (map QuoteJSONChar s) @ dquote # rest) = Some (s, rest)"
  by (induction s) (simp_all add: JSON_unquote_char consume_def)

lemma JSON_parse_string_quoted:
  "JSON_parse_string (QuoteJSONString s @ rest) = Some (s, rest)"
  by (simp add: JSON_parse_string_def QuoteJSONString_def JSON_unquote_quoted)

lemma expect_literal: "expect lit (lit @ rest) = Some rest"
  by (simp add: expect_def)

lemma JSON_parse_nullable_written:
  "JSON_parse_nullable ((case p of None \<Rightarrow> ''null'' | Some s \<Rightarrow> QuoteJSONString s) @ rest) = Some (p, rest)"
proof (cases p)
  case None
  then show ?thesis
    using expect_literal [of "''null''" rest] by (simp add: JSON_parse_nullable_def)
next
  case (Some s)
  have "expect ''null'' (QuoteJSONString s @ rest) = None"
    by (simp add: expect_def QuoteJSONString_def dquote_def)
  with Some show ?thesis
    by (simp add: JSON_parse_nullable_def JSON_parse_string_quoted)
qed

lemma JSON_parse_bool_written:
  "JSON_parse_bool ((if b then ''true'' else ''false'') @ rest) = Some (b, rest)"
  by (simp add: JSON_parse_bool_def expect_def)

text \<open>Every \<^verbatim>\<open>AddKnowledgeFileData\<close> reads back from its JSON text.\<close>

lemma JSON_parse_stringify: "JSON_parse (JSON_stringify k) = Some k"
proof -
  let ?p = "case parent_id k of None \<Rightarrow> ''null'' | Some s \<Rightarrow> QuoteJSONString s"
  let ?b = "if is_folder k then ''true'' else ''false''"
  let ?s5 = "?b @ ''}''"
  let ?s4 = "'',\"is_folder\":'' @ ?s5"
  let ?s3 = "QuoteJSONString (file_name k) @ ?s4"
  let ?s2 = "'',\"file_name\":'' @ ?s3"
  let ?s1 = "?p @ ?s2"
  have w: "JSON_stringify k = ''{\"parent_id\":'' @ ?s1"
    by (simp add: JSON_stringify_def)
  have 1: "expect ''{\"parent_id\":'' (''{\"parent_id\":'' @ ?s1) = Some ?s1" by (rule expect_literal)
  have 2: "JSON_parse_nullable ?s1 = Some (parent_id k, ?s2)" by (rule JSON_parse_nullable_written)
  have 3: "expect '',\"file_name\":'' ?s2 = Some ?s3" by (rule expect_literal)
  have 4: "JSON_parse_string ?s3 = Some (file_name k, ?s4)" by (rule JSON_parse_string_quoted)
  have 5: "expect '',\"is_folder\":'' ?s4 = Some ?s5" by (rule expect_literal)
  have 6: "JSON_parse_bool ?s5 = Some (is_folder k, ''}'')" by (rule JSON_parse_bool_written)
  have "JSON_parse (''{\"parent_id\":'' @ ?s1) =
          Some \<lparr>parent_id = parent_id k, file_name = file_name k, is_folder = is_folder k\<rparr>"
    by (subst JSON_parse_def) (simp only: 1 2 3 4 5 6 option.case prod.case refl if_True)
  then show ?thesis
    by (simp only: w) simp
qed

section \<open>The claims\<close>

text \<open>
  Claim C1, as amended. When the resolution of the folder yields an id that is neither null
  nor the empty string, \<^verbatim>\<open>exploreAndUpload\<close> calls \<^verbatim>\<open>uploadFile\<close> exactly once per markdown
  file, in the order of the enumeration, each call with the resolved id as its parent id,
  whatever the outcome of the reads and of the requests; and every request it posts carries
  that id as \<^verbatim>\<open>parent_id\<close> in its \<^verbatim>\<open>knowledge_data\<close>. When there is no markdown file, it calls
  \<^verbatim>\<open>uploadFile\<close> never and posts nothing, and still sends the listing request once, followed
  by the request that creates the folder exactly when no fetched item is the folder.
\<close>

theorem exploreAndUpload_uploads_every_document:
  "(fetchFiles w t0 = (Inr files, t1) \<and>
    exploreAndUpload_reconcile w files (t1 @ [Notice (Found_Quivr_files (map file_name files))])
      = (Inr (Some fid), t2) \<and>
    fid \<noteq> [] \<longrightarrow>
      upload_calls (snd (exploreAndUpload w t0)) =
        upload_calls t0 @ map (\<lambda>f. (f, Some fid)) (getMarkdownFiles w) \<and>
      (\<exists>ps. posts (snd (exploreAndUpload w t0)) = posts t0 @ ps \<and>
            length ps \<le> length (getMarkdownFiles w) \<and>
            list_all (carries (Some fid) (getMarkdownFiles w)) ps)) \<and>
   (fetchFiles w t0 = (Inr files, t1) \<and> getMarkdownFiles w = [] \<longrightarrow>
      upload_calls (snd (exploreAndUpload w t0)) = upload_calls t0 \<and>
      posts (snd (exploreAndUpload w t0)) = posts t0 \<and>
      requests (snd (exploreAndUpload w t0)) =
        requests t0 @ fetchFiles_request w #
          (if \<exists>x \<in> set files. is_sync_folder x then [] else [createFolder_request w ''obsidian-sync'']) \<and>
      create_calls (snd (exploreAndUpload w t0)) =
        create_calls t0 @ (if \<exists>x \<in> set files. is_sync_folder x then [] else [''obsidian-sync'']))"
proof (intro conjI impI)
  assume a: "fetchFiles w t0 = (Inr files, t1) \<and>
    exploreAndUpload_reconcile w files (t1 @ [Notice (Found_Quivr_files (map file_name files))])
      = (Inr (Some fid), t2) \<and> fid \<noteq> []"
  then have run: "exploreAndUpload w t0 = exploreAndUpload_loop w (Some fid) (getMarkdownFiles w) t2"
    using exploreAndUpload_unfold [of w t0 files t1 "Some fid" t2] by (simp add: truthy_def)
  have ev: "upload_calls t2 = upload_calls t0" "posts t2 = posts t0"
    using a fetch_then_reconcile_events [of w t0 files t1 "Some fid" t2] by simp_all
  show "upload_calls (snd (exploreAndUpload w t0)) =
        upload_calls t0 @ map (\<lambda>f. (f, Some fid)) (getMarkdownFiles w)"
    by (simp add: run loop_events ev)
  show "\<exists>ps. posts (snd (exploreAndUpload w t0)) = posts t0 @ ps \<and>
            length ps \<le> length (getMarkdownFiles w) \<and>
            list_all (carries (Some fid) (getMarkdownFiles w)) ps"
    using loop_posts [of w "Some fid" "getMarkdownFiles w" t2] by (simp add: run ev)
next
  assume b: "fetchFiles w t0 = (Inr files, t1) \<and> getMarkdownFiles w = []"
  obtain r t2 where rec: "exploreAndUpload_reconcile w files
      (t1 @ [Notice (Found_Quivr_files (map file_name files))]) = (Inr r, t2)"
    using reconcile_returns [of w files "t1 @ [Notice (Found_Quivr_files (map file_name files))]"]
    by (metis prod.collapse)
  have run: "exploreAndUpload w t0 =
      (if truthy r then (Inr (), t2) else (Inr (), t2 @ [Notice Failed_to_determine_folder_ID]))"
    using b rec exploreAndUpload_unfold [of w t0 files t1 r t2] by simp
  note ev = fetch_then_reconcile_events [OF conjunct1 [OF b] rec]
  show "upload_calls (snd (exploreAndUpload w t0)) = upload_calls t0"
    by (simp add: run ev(1))
  show "posts (snd (exploreAndUpload w t0)) = posts t0"
    by (simp add: run ev(2))
  show "requests (snd (exploreAndUpload w t0)) =
        requests t0 @ fetchFiles_request w #
          (if \<exists>x \<in> set files. is_sync_folder x then [] else [createFolder_request w ''obsidian-sync''])"
    by (simp add: run ev(4))
  show "create_calls (snd (exploreAndUpload w t0)) =
        create_calls t0 @ (if \<exists>x \<in> set files. is_sync_folder x then [] else [''obsidian-sync''])"
    by (simp add: run ev(3))
qed

text \<open>
  The first part at a vault of three files, whose first upload is answered with status 500
  and whose second file cannot be read; the second part at an empty vault.
\<close>

theorem exploreAndUpload_uploads_every_document_witness:
  "fetchFiles world_found [] =
     (Inr [readme_item, nested_folder, sync_folder],
      [Call_fetchFiles, RequestUrl (fetchFiles_request world_found)]) \<and>
   exploreAndUpload_reconcile world_found [readme_item, nested_folder, sync_folder]
     [Call_fetchFiles, RequestUrl (fetchFiles_request world_found),
      Notice (Found_Quivr_files [''readme.txt'', ''obsidian-sync'', ''obsidian-sync''])] =
     (Inr (Some ''folder-2''),
      [Call_fetchFiles, RequestUrl (fetchFiles_request world_found),
       Notice (Found_Quivr_files [''readme.txt'', ''obsidian-sync'', ''obsidian-sync'']),
       Notice (Found_existing_folder ''obsidian-sync'')]) \<and>
   upload_calls (snd (exploreAndUpload world_found [])) =
     [(notes_md, Some ''folder-2''), (todo_md, Some ''folder-2''), (ideas_md, Some ''folder-2'')] \<and>
   length (posts (snd (exploreAndUpload world_found []))) \<le> 3 \<and>
   fetchFiles world_no_documents [] =
     (Inr [readme_item], [Call_fetchFiles, RequestUrl (fetchFiles_request world_no_documents)]) \<and>
   getMarkdownFiles world_no_documents = [] \<and>
   upload_calls (snd (exploreAndUpload world_no_documents [])) = [] \<and>
   requests (snd (exploreAndUpload world_no_documents [])) =
     [fetchFiles_request world_no_documents, createFolder_request world_no_documents ''obsidian-sync''] \<and>
   create_calls (snd (exploreAndUpload world_no_documents [])) = [''obsidian-sync'']"
proof -
  have f: "fetchFiles world_found [] =
     (Inr [readme_item, nested_folder, sync_folder],
      [Call_fetchFiles, RequestUrl (fetchFiles_request world_found)])"
    by (simp add: fetchFiles_def Let_def world_found_def)
  have r: "exploreAndUpload_reconcile world_found [readme_item, nested_folder, sync_folder]
     ([Call_fetchFiles, RequestUrl (fetchFiles_request world_found)] @
      [Notice (Found_Quivr_files (map file_name [readme_item, nested_folder, sync_folder]))]) =
     (Inr (Some ''folder-2''),
      [Call_fetchFiles, RequestUrl (fetchFiles_request world_found),
       Notice (Found_Quivr_files [''readme.txt'', ''obsidian-sync'', ''obsidian-sync'']),
       Notice (Found_existing_folder ''obsidian-sync'')])"
    by (simp add: exploreAndUpload_reconcile_def readme_item_def nested_folder_def sync_folder_def)
  have g: "fetchFiles world_no_documents [] =
     (Inr [readme_item], [Call_fetchFiles, RequestUrl (fetchFiles_request world_no_documents)])"
    by (simp add: fetchFiles_def Let_def world_no_documents_def world_absent_def world_found_def)
  have n: "getMarkdownFiles world_no_documents = []"
    by (simp add: world_no_documents_def world_absent_def world_found_def)
  have m: "getMarkdownFiles world_found = [notes_md, todo_md, ideas_md]"
    by (simp add: world_found_def)
  have s: "\<not> (\<exists>x \<in> set [readme_item]. is_sync_folder x)"
    by (simp add: is_sync_folder_def readme_item_def)
  note T1 = exploreAndUpload_uploads_every_document
    [of world_found "[]" "[readme_item, nested_folder, sync_folder]"
        "[Call_fetchFiles, RequestUrl (fetchFiles_request world_found)]" "''folder-2''"
        "[Call_fetchFiles, RequestUrl (fetchFiles_request world_found),
          Notice (Found_Quivr_files [''readme.txt'', ''obsidian-sync'', ''obsidian-sync'']),
          Notice (Found_existing_folder ''obsidian-sync'')]", THEN conjunct1, rule_format]
  note T2 = exploreAndUpload_uploads_every_document
    [of world_no_documents "[]" "[readme_item]"
        "[Call_fetchFiles, RequestUrl (fetchFiles_request world_no_documents)]", THEN conjunct2, rule_format]
  have u: "upload_calls (snd (exploreAndUpload world_found [])) =
     [(notes_md, Some ''folder-2''), (todo_md, Some ''folder-2''), (ideas_md, Some ''folder-2'')]"
    and p: "length (posts (snd (exploreAndUpload world_found []))) \<le> 3"
    using T1 f r m by auto
  have v: "upload_calls (snd (exploreAndUpload world_no_documents [])) = []"
    "requests (snd (exploreAndUpload world_no_documents [])) =
     [fetchFiles_request world_no_documents, createFolder_request world_no_documents ''obsidian-sync'']"
    "create_calls (snd (exploreAndUpload world_no_documents [])) = [''obsidian-sync'']"
    using T2 g n s by simp_all
  from f r u p g n v show ?thesis
    by (simp add: readme_item_def nested_folder_def sync_folder_def)
qed

text \<open>
  Claim C1 as stated fails for an id that is not null and yet falsy in JavaScript: the
  service lists the folder with the empty string as its id, the resolution yields that id,
  the vault has three files, and \<^verbatim>\<open>if (obsidianSyncFolderId)\<close> skips the loop.
\<close>

theorem non_null_empty_id_counterexample:
  "fetchFiles world_empty_id [] =
     (Inr [sync_folder\<lparr>id' := []\<rparr>], [Call_fetchFiles, RequestUrl (fetchFiles_request world_empty_id)]) \<and>
   fst (exploreAndUpload_reconcile world_empty_id [sync_folder\<lparr>id' := []\<rparr>]
          [Call_fetchFiles, RequestUrl (fetchFiles_request world_empty_id),
           Notice (Found_Quivr_files [''obsidian-sync''])]) = Inr (Some []) \<and>
   getMarkdownFiles world_empty_id = [notes_md, todo_md, ideas_md] \<and>
   upload_calls (snd (exploreAndUpload world_empty_id [])) = [] \<and>
   length (upload_calls (snd (exploreAndUpload world_empty_id []))) \<noteq>
     length (getMarkdownFiles world_empty_id)"
  by (simp add: run_defs data_defs world_empty_id_def)

text \<open>
  Claim C2. When some fetched item is a folder named \<^verbatim>\<open>obsidian-sync\<close>, the reconciliation
  returns the id of the first such item of the list (no item before it is one), shows one
  notice, and neither calls \<^verbatim>\<open>createFolder\<close> nor sends any request.
\<close>

theorem reconcile_reuses_first_match:
  assumes "\<exists>x \<in> set files. file_name x = ''obsidian-sync'' \<and> is_folder x"
  shows "\<exists>pre x post.
           files = pre @ x # post \<and> is_sync_folder x \<and> (\<forall>y \<in> set pre. \<not> is_sync_folder y) \<and>
           exploreAndUpload_reconcile w files t0 =
             (Inr (Some (id' x)), t0 @ [Notice (Found_existing_folder ''obsidian-sync'')]) \<and>
           create_calls (snd (exploreAndUpload_reconcile w files t0)) = create_calls t0 \<and>
           requests (snd (exploreAndUpload_reconcile w files t0)) = requests t0"
proof -
  from assms have "\<exists>x \<in> set files. is_sync_folder x"
    by (simp add: is_sync_folder_def)
  then obtain pre x post where
    s: "files = pre @ x # post" "is_sync_folder x" "\<forall>y \<in> set pre. \<not> is_sync_folder y"
    using split_list_first_prop [of files is_sync_folder] by blast
  have "exploreAndUpload_reconcile w files t0 =
          (Inr (Some (id' x)), t0 @ [Notice (Found_existing_folder ''obsidian-sync'')])"
    unfolding s(1) using s(3) s(2) by (rule reconcile_match)
  with s show ?thesis by auto
qed

text \<open>With two such folders in the list, the id of the earlier one is returned.\<close>

theorem reconcile_reuses_first_match_witness:
  "(\<exists>x \<in> set [readme_item, nested_folder, sync_folder].
      file_name x = ''obsidian-sync'' \<and> is_folder x) \<and>
   exploreAndUpload_reconcile world_found [readme_item, nested_folder, sync_folder] [] =
     (Inr (Some ''folder-2''), [Notice (Found_existing_folder ''obsidian-sync'')]) \<and>
   create_calls (snd (exploreAndUpload_reconcile world_found
                        [readme_item, nested_folder, sync_folder] [])) = []"
proof -
  have h: "\<exists>x \<in> set [readme_item, nested_folder, sync_folder].
      file_name x = ''obsidian-sync'' \<and> is_folder x"
    by (simp add: nested_folder_def)
  from reconcile_reuses_first_match [OF h, of world_found "[]"]
  obtain pre x post where
    s: "[readme_item, nested_folder, sync_folder] = pre @ x # post" "is_sync_folder x"
       "\<forall>y \<in> set pre. \<not> is_sync_folder y"
    and r: "exploreAndUpload_reconcile world_found [readme_item, nested_folder, sync_folder] [] =
             (Inr (Some (id' x)), [] @ [Notice (Found_existing_folder ''obsidian-sync'')])"
    and c: "create_calls (snd (exploreAndUpload_reconcile world_found
              [readme_item, nested_folder, sync_folder] [])) = create_calls []"
    by blast
  have "\<not> is_sync_folder readme_item" by (simp add: is_sync_folder_def readme_item_def)
  moreover have "is_sync_folder nested_folder" by (simp add: is_sync_folder_def nested_folder_def)
  ultimately have "x = nested_folder"
    using s by (cases pre) (auto simp: Cons_eq_append_conv)
  then have "id' x = ''folder-2''" by (simp add: nested_folder_def)
  with h r c show ?thesis by simp
qed

text \<open>
  For a folder name none of whose characters \<^verbatim>\<open>JSON.stringify\<close> escapes, the template literal
  of line 142 is the multipart encoding of one field \<^verbatim>\<open>knowledge_data\<close> whose value is the
  JSON text of \<^verbatim>\<open>{parent_id: null, file_name: name, is_folder: true}\<close>.
\<close>

lemma createFolder_body_plain:
  assumes "\<forall>c \<in> set folderName. QuoteJSONChar c = [c]"
  shows "createFolder_body folderName =
           multipart_form_data ''----WebKitFormBoundaryjpD4mAhPBDMdS5QN''
             [(''knowledge_data'',
               JSON_stringify \<lparr>parent_id = None, file_name = folderName, is_folder = True\<rparr>)]"
proof -
  have "concat (map QuoteJSONChar folderName) = folderName"
    using assms by (induction folderName) simp_all
  then show ?thesis
    by (simp add: createFolder_body_def multipart_form_data_def multipart_field_def
        JSON_stringify_def QuoteJSONString_def dquote_def)
qed

lemma createFolder_body_obsidian_sync:
  "createFolder_body ''obsidian-sync'' =
     multipart_form_data ''----WebKitFormBoundaryjpD4mAhPBDMdS5QN''
       [(''knowledge_data'',
         JSON_stringify \<lparr>parent_id = None, file_name = ''obsidian-sync'', is_folder = True\<rparr>)]"
  by (rule createFolder_body_plain) (simp add: QuoteJSONChar_def dquote_def backslash_def)

text \<open>
  Claim C3. When no fetched item is a folder named \<^verbatim>\<open>obsidian-sync\<close>, the reconciliation
  calls \<^verbatim>\<open>createFolder\<close> exactly once, with the name \<^verbatim>\<open>obsidian-sync\<close>; that call sends exactly
  one request, a POST whose body is the multipart encoding of the field \<^verbatim>\<open>knowledge_data\<close>
  with the JSON text of \<^verbatim>\<open>{parent_id: null, file_name: "obsidian-sync", is_folder: true}\<close>;
  and the reconciliation returns the id of the answer when its status is 200, and null
  when the status is another one or the request throws.
\<close>

theorem reconcile_creates_folder_when_absent:
  assumes "\<not> (\<exists>x \<in> set files. file_name x = ''obsidian-sync'' \<and> is_folder x)"
  shows "create_calls (snd (exploreAndUpload_reconcile w files t0)) = create_calls t0 @ [''obsidian-sync''] \<and>
         requests (snd (exploreAndUpload_reconcile w files t0)) =
           requests t0 @ [createFolder_request w ''obsidian-sync''] \<and>
         method (createFolder_request w ''obsidian-sync'') = ''POST'' \<and>
         body (createFolder_request w ''obsidian-sync'') =
           Some (multipart_form_data ''----WebKitFormBoundaryjpD4mAhPBDMdS5QN''
                  [(''knowledge_data'',
                    JSON_stringify \<lparr>parent_id = None, file_name = ''obsidian-sync'', is_folder = True\<rparr>)]) \<and>
         fst (exploreAndUpload_reconcile w files t0) =
           Inr (case requestUrl_POST w (t0 @ [Notice Creating_new_folder, Call_createFolder ''obsidian-sync''])
                       (createFolder_request w ''obsidian-sync'') of
                  Inr response \<Rightarrow> if status response = 200 then json response else None
                | Inl error \<Rightarrow> None)"
proof -
  from assms have n: "\<forall>y \<in> set files. \<not> is_sync_folder y"
    by (simp add: is_sync_folder_def)
  then have e: "\<not> (\<exists>x \<in> set files. is_sync_folder x)" by simp
  have "fst (exploreAndUpload_reconcile w files t0) =
           Inr (case requestUrl_POST w (t0 @ [Notice Creating_new_folder, Call_createFolder ''obsidian-sync''])
                       (createFolder_request w ''obsidian-sync'') of
                  Inr response \<Rightarrow> if status response = 200 then json response else None
                | Inl error \<Rightarrow> None)"
    by (simp add: reconcile_no_match [OF n] createFolder_cases split: sum.splits)
  moreover have "body (createFolder_request w ''obsidian-sync'') =
           Some (multipart_form_data ''----WebKitFormBoundaryjpD4mAhPBDMdS5QN''
                  [(''knowledge_data'',
                    JSON_stringify \<lparr>parent_id = None, file_name = ''obsidian-sync'', is_folder = True\<rparr>)])"
    by (simp add: createFolder_request_def createFolder_body_obsidian_sync)
  moreover have "method (createFolder_request w ''obsidian-sync'') = ''POST''"
    by (simp add: createFolder_request_def)
  ultimately show ?thesis
    using e by (simp add: reconcile_events)
qed

text \<open>A service that creates the folder, and one that answers the creation with status 500.\<close>

theorem reconcile_creates_folder_when_absent_witness:
  "\<not> (\<exists>x \<in> set [readme_item]. file_name x = ''obsidian-sync'' \<and> is_folder x) \<and>
   create_calls (snd (exploreAndUpload_reconcile world_absent [readme_item] [])) = [''obsidian-sync''] \<and>
   requests (snd (exploreAndUpload_reconcile world_absent [readme_item] [])) =
     [createFolder_request world_absent ''obsidian-sync''] \<and>
   fst (exploreAndUpload_reconcile world_absent [readme_item] []) = Inr (Some ''folder-3'') \<and>
   fst (exploreAndUpload_reconcile world_unresolved [] []) = Inr None"
proof -
  have h: "\<not> (\<exists>x \<in> set [readme_item]. file_name x = ''obsidian-sync'' \<and> is_folder x)"
    by (simp add: readme_item_def)
  have k: "\<not> (\<exists>x \<in> set ([] :: RemoteItem list). file_name x = ''obsidian-sync'' \<and> is_folder x)"
    by simp
  show ?thesis
    using h reconcile_creates_folder_when_absent [OF h, of world_absent "[]"]
      reconcile_creates_folder_when_absent [OF k, of world_unresolved "[]"]
    by (simp add: world_absent_def world_unresolved_def world_found_def)
qed

text \<open>
  Claim C4. Whatever happens to the upload of the document at a position of the loop,
  \<^verbatim>\<open>uploadFile\<close> returns to the loop without throwing: a read that throws, a request that
  throws and an answer whose status axios rejects (any status outside 200..299) are caught
  and end in the notice of the \<^verbatim>\<open>catch\<close> block. The loop goes on with the documents after
  it from the events that upload left, every one of them gets exactly one call of
  \<^verbatim>\<open>uploadFile\<close>, in order, and the loop itself returns without throwing.
\<close>

theorem upload_failure_does_not_stop_the_loop:
  "uploadFile w doc fid t =
     (Inr (),
      t @ Call_uploadFile doc fid # VaultRead doc #
        (case vault_read w (t @ [Call_uploadFile doc fid]) doc of
           Inl error \<Rightarrow> [Notice_for (Error_uploading_file (name doc) error) 10000]
         | Inr fileContent \<Rightarrow>
             Post (uploadFile_request w doc fid fileContent) #
             (case http_post w (t @ [Call_uploadFile doc fid, VaultRead doc])
                     (uploadFile_request w doc fid fileContent) of
                Inl error \<Rightarrow> [Notice_for (Error_uploading_file (name doc) error) 10000]
              | Inr response \<Rightarrow>
                  if 200 \<le> axios_status response \<and> axios_status response < 300
                  then [Notice (File_uploaded_successfully (name doc))]
                  else [Notice_for (Error_uploading_file (name doc)
                                      (AxiosError (axios_status response))) 10000]))) \<and>
   exploreAndUpload_loop w fid (pre @ doc # post) t0 =
     exploreAndUpload_loop w fid post
       (snd (uploadFile w doc fid
          (snd (exploreAndUpload_loop w fid pre t0) @ [Notice (Uploading_file (name doc))]))) \<and>
   upload_calls (snd (exploreAndUpload_loop w fid (pre @ doc # post) t0)) =
     upload_calls (snd (exploreAndUpload_loop w fid pre t0)) @ (doc, fid) # map (\<lambda>f. (f, fid)) post \<and>
   fst (exploreAndUpload_loop w fid (pre @ doc # post) t0) = Inr ()"
proof -
  have "exploreAndUpload_loop w fid (pre @ doc # post) t0 =
     exploreAndUpload_loop w fid post
       (snd (uploadFile w doc fid
          (snd (exploreAndUpload_loop w fid pre t0) @ [Notice (Uploading_file (name doc))])))"
    by (simp only: loop_append loop_step)
  moreover have "upload_calls (snd (exploreAndUpload_loop w fid (pre @ doc # post) t0)) =
     upload_calls (snd (exploreAndUpload_loop w fid pre t0)) @ (doc, fid) # map (\<lambda>f. (f, fid)) post"
    by (simp add: loop_events)
  ultimately show ?thesis
    using uploadFile_trace [of w doc fid t] loop_returns [of w fid "pre @ doc # post" t0]
    by (simp only: simp_thms)
qed

text \<open>
  Three documents: the upload of the first is answered with status 500, the second cannot
  be read, the third is uploaded.
\<close>

lemma failing_uploads_example:
  "exploreAndUpload_loop world_found (Some ''folder-2'') [notes_md, todo_md, ideas_md] [] =
     (Inr (),
      [Notice (Uploading_file ''notes.md''), Call_uploadFile notes_md (Some ''folder-2''),
       VaultRead notes_md,
       Post \<lparr>post_instance = \<lparr>baseURL = ''https://api.quivr.app'',
                               instance_headers = [(''Authorization'', ''Bearer secret'')]\<rparr>,
             post_url = ''/knowledge/'',
             post_data =
               [(''knowledge_data'',
                 Text (JSON_stringify \<lparr>parent_id = Some ''folder-2'', file_name = ''notes.md'',
                                         is_folder = False\<rparr>)),
                (''file'', FilePart \<lparr>file_bits = ''# Hello'', file_name' = ''notes.md'', file_type = []\<rparr>)],
             post_headers = [(''Content-Type'', ''multipart/form-data'')]\<rparr>,
       Notice_for (Error_uploading_file ''notes.md'' (AxiosError 500)) 10000,
       Notice (Uploading_file ''todo.md''), Call_uploadFile todo_md (Some ''folder-2''),
       VaultRead todo_md,
       Notice_for (Error_uploading_file ''todo.md'' (Error ''ENOENT'')) 10000,
       Notice (Uploading_file ''ideas.md''), Call_uploadFile ideas_md (Some ''folder-2''),
       VaultRead ideas_md,
       Post \<lparr>post_instance = \<lparr>baseURL = ''https://api.quivr.app'',
                               instance_headers = [(''Authorization'', ''Bearer secret'')]\<rparr>,
             post_url = ''/knowledge/'',
             post_data =
               [(''knowledge_data'',
                 Text (JSON_stringify \<lparr>parent_id = Some ''folder-2'', file_name = ''ideas.md'',
                                         is_folder = False\<rparr>)),
                (''file'', FilePart \<lparr>file_bits = ''# Hello'', file_name' = ''ideas.md'', file_type = []\<rparr>)],
             post_headers = [(''Content-Type'', ''multipart/form-data'')]\<rparr>,
       Notice (File_uploaded_successfully ''ideas.md'')])"
  by (simp add: run_defs data_defs)

text \<open>
  Claim C5. When the resolution of the folder yields null, which happens only when no
  fetched item is the folder and \<^verbatim>\<open>createFolder\<close> returned null, \<^verbatim>\<open>exploreAndUpload\<close> shows
  the notice that it failed to determine the folder id and does nothing else: no call of
  \<^verbatim>\<open>uploadFile\<close>, no request posted.
\<close>

theorem unresolved_folder_stops_the_run:
  assumes "fetchFiles w t0 = (Inr files, t1)"
    and "exploreAndUpload_reconcile w files (t1 @ [Notice (Found_Quivr_files (map file_name files))])
           = (Inr None, t2)"
  shows "exploreAndUpload w t0 = (Inr (), t2 @ [Notice Failed_to_determine_folder_ID]) \<and>
         upload_calls (snd (exploreAndUpload w t0)) = upload_calls t0 \<and>
         posts (snd (exploreAndUpload w t0)) = posts t0 \<and>
         find (\<lambda>file. file_name file = ''obsidian-sync'' \<and> is_folder file) files = None \<and>
         fst (createFolder w ''obsidian-sync''
                (t1 @ [Notice (Found_Quivr_files (map file_name files)), Notice Creating_new_folder]))
           = Inr None"
proof -
  have run: "exploreAndUpload w t0 = (Inr (), t2 @ [Notice Failed_to_determine_folder_ID])"
    using exploreAndUpload_unfold [OF assms] by (simp add: truthy_def)
  note ev = fetch_then_reconcile_events [OF assms]
  have none: "find (\<lambda>file. file_name file = ''obsidian-sync'' \<and> is_folder file) files = None"
    using assms(2) by (simp add: exploreAndUpload_reconcile_def split: option.splits)
  then have "fst (createFolder w ''obsidian-sync''
                (t1 @ [Notice (Found_Quivr_files (map file_name files)), Notice Creating_new_folder]))
           = Inr None"
    using assms(2) by (simp add: exploreAndUpload_reconcile_def)
  with run ev(1) ev(2) none show ?thesis by simp
qed

text \<open>A vault of three documents, a listing that throws and a creation answered with
  status 500.\<close>

theorem unresolved_folder_stops_the_run_witness:
  "fetchFiles world_unresolved [] =
     (Inr [], [Call_fetchFiles, RequestUrl (fetchFiles_request world_unresolved),
               ConsoleError (Error_fetching_files (Error ''net::ERR_FAILED'')),
               Notice Error_fetching_files_Check_console]) \<and>
   getMarkdownFiles world_unresolved = [notes_md, todo_md, ideas_md] \<and>
   exploreAndUpload world_unresolved [] =
     (Inr (), [Call_fetchFiles, RequestUrl (fetchFiles_request world_unresolved),
               ConsoleError (Error_fetching_files (Error ''net::ERR_FAILED'')),
               Notice Error_fetching_files_Check_console,
               Notice (Found_Quivr_files []), Notice Creating_new_folder,
               Call_createFolder ''obsidian-sync'',
               RequestUrl (createFolder_request world_unresolved ''obsidian-sync''),
               Notice (Failed_to_create_folder ''obsidian-sync''), Notice Response_json,
               Notice Failed_to_determine_folder_ID]) \<and>
   upload_calls (snd (exploreAndUpload world_unresolved [])) = [] \<and>
   posts (snd (exploreAndUpload world_unresolved [])) = []"
proof -
  have f: "fetchFiles world_unresolved [] =
     (Inr [], [Call_fetchFiles, RequestUrl (fetchFiles_request world_unresolved),
               ConsoleError (Error_fetching_files (Error ''net::ERR_FAILED'')),
               Notice Error_fetching_files_Check_console])"
    by (simp add: fetchFiles_def Let_def world_unresolved_def world_found_def)
  have r: "exploreAndUpload_reconcile world_unresolved []
     ([Call_fetchFiles, RequestUrl (fetchFiles_request world_unresolved),
       ConsoleError (Error_fetching_files (Error ''net::ERR_FAILED'')),
       Notice Error_fetching_files_Check_console] @ [Notice (Found_Quivr_files (map file_name []))]) =
     (Inr None,
      [Call_fetchFiles, RequestUrl (fetchFiles_request world_unresolved),
       ConsoleError (Error_fetching_files (Error ''net::ERR_FAILED'')),
       Notice Error_fetching_files_Check_console,
       Notice (Found_Quivr_files []), Notice Creating_new_folder,
       Call_createFolder ''obsidian-sync'',
       RequestUrl (createFolder_request world_unresolved ''obsidian-sync''),
       Notice (Failed_to_create_folder ''obsidian-sync''), Notice Response_json])"
    by (simp add: exploreAndUpload_reconcile_def createFolder_def Let_def world_unresolved_def
        world_found_def)
  have m: "getMarkdownFiles world_unresolved = [notes_md, todo_md, ideas_md]"
    by (simp add: world_unresolved_def world_found_def)
  from unresolved_folder_stops_the_run [OF f r] f m show ?thesis by simp
qed

text \<open>
  Claim C7. \<^verbatim>\<open>fetchFiles\<close> never throws to its caller. When the answer has status 200 it
  returns the items of the answer and reports nothing; when the answer has another status
  it shows a notice, writes a console line and returns the empty list; when the request
  throws it writes a console line, shows a notice and returns the empty list.
\<close>

theorem fetchFiles_never_raises:
  "(\<exists>files. fst (fetchFiles w t0) = Inr files) \<and>
   (requestUrl_GET w (t0 @ [Call_fetchFiles]) (fetchFiles_request w) = Inr response \<and>
    status response = 200 \<longrightarrow>
      fetchFiles w t0 =
        (Inr (json response), t0 @ [Call_fetchFiles, RequestUrl (fetchFiles_request w)])) \<and>
   (requestUrl_GET w (t0 @ [Call_fetchFiles]) (fetchFiles_request w) = Inr response \<and>
    status response \<noteq> 200 \<longrightarrow>
      fetchFiles w t0 =
        (Inr [], t0 @ [Call_fetchFiles, RequestUrl (fetchFiles_request w),
                       Notice (Failed_to_fetch_files (status response)),
                       ConsoleError (Failed_to_fetch_files (status response))])) \<and>
   (requestUrl_GET w (t0 @ [Call_fetchFiles]) (fetchFiles_request w) = Inl error \<longrightarrow>
      fetchFiles w t0 =
        (Inr [], t0 @ [Call_fetchFiles, RequestUrl (fetchFiles_request w),
                       ConsoleError (Error_fetching_files error),
                       Notice Error_fetching_files_Check_console]))"
  using fetchFiles_returns [of w t0] by (simp add: fetchFiles_cases)

text \<open>An answer with status 200, one with status 403, and a request that throws.\<close>

theorem fetchFiles_never_raises_witness:
  "fetchFiles world_found [] =
     (Inr [readme_item, nested_folder, sync_folder],
      [Call_fetchFiles, RequestUrl (fetchFiles_request world_found)]) \<and>
   fetchFiles world_forbidden [] =
     (Inr [], [Call_fetchFiles, RequestUrl (fetchFiles_request world_forbidden),
               Notice (Failed_to_fetch_files 403), ConsoleError (Failed_to_fetch_files 403)]) \<and>
   fetchFiles world_unresolved [] =
     (Inr [], [Call_fetchFiles, RequestUrl (fetchFiles_request world_unresolved),
               ConsoleError (Error_fetching_files (Error ''net::ERR_FAILED'')),
               Notice Error_fetching_files_Check_console])"
proof -
  have a: "requestUrl_GET world_found ([] @ [Call_fetchFiles]) (fetchFiles_request world_found) =
             Inr \<lparr>status = 200, json = [readme_item, nested_folder, sync_folder]\<rparr> \<and>
           status \<lparr>status = 200, json = [readme_item, nested_folder, sync_folder]\<rparr> = 200"
    by (simp add: world_found_def)
  have b: "requestUrl_GET world_forbidden ([] @ [Call_fetchFiles]) (fetchFiles_request world_forbidden) =
             Inr \<lparr>status = 403, json = []\<rparr> \<and>
           status \<lparr>status = 403, json = [] :: RemoteItem list\<rparr> \<noteq> 200"
    by (simp add: world_forbidden_def world_found_def)
  have c: "requestUrl_GET world_unresolved ([] @ [Call_fetchFiles]) (fetchFiles_request world_unresolved) =
             Inl (Error ''net::ERR_FAILED'')"
    by (simp add: world_unresolved_def world_found_def)
  note T = fetchFiles_never_raises
  from T [of world_found "[]" "\<lparr>status = 200, json = [readme_item, nested_folder, sync_folder]\<rparr>"] a
  have 1: "fetchFiles world_found [] =
     (Inr [readme_item, nested_folder, sync_folder],
      [Call_fetchFiles, RequestUrl (fetchFiles_request world_found)])"
    by simp
  from T [of world_forbidden "[]" "\<lparr>status = 403, json = []\<rparr>"] b
  have 2: "fetchFiles world_forbidden [] =
     (Inr [], [Call_fetchFiles, RequestUrl (fetchFiles_request world_forbidden),
               Notice (Failed_to_fetch_files 403), ConsoleError (Failed_to_fetch_files 403)])"
    by simp
  from T [of world_unresolved "[]" _ "Error ''net::ERR_FAILED''"] c
  have 3: "fetchFiles world_unresolved [] =
     (Inr [], [Call_fetchFiles, RequestUrl (fetchFiles_request world_unresolved),
               ConsoleError (Error_fetching_files (Error ''net::ERR_FAILED'')),
               Notice Error_fetching_files_Check_console])"
    by simp
  from 1 2 3 show ?thesis by simp
qed

text \<open>
  Claim C10. The search of the reconciliation does not look at \<^verbatim>\<open>parent_id\<close>: a folder named
  \<^verbatim>\<open>obsidian-sync\<close> whose \<^verbatim>\<open>parent_id\<close> is not null, and that no matching item precedes, is
  matched and its id returned; and replacing its \<^verbatim>\<open>parent_id\<close> by any other value changes
  nothing of what the reconciliation returns and does.
\<close>

theorem reconcile_ignores_parent_id:
  assumes "file_name x = ''obsidian-sync''" and "is_folder x" and "parent_id x = Some p"
    and "\<forall>y \<in> set pre. \<not> is_sync_folder y"
  shows "exploreAndUpload_reconcile w (pre @ x # post) t0 =
           (Inr (Some (id' x)), t0 @ [Notice (Found_existing_folder ''obsidian-sync'')]) \<and>
         exploreAndUpload_reconcile w (pre @ x\<lparr>parent_id := q\<rparr> # post) t0 =
           exploreAndUpload_reconcile w (pre @ x # post) t0"
proof -
  have s: "is_sync_folder x" "is_sync_folder (x\<lparr>parent_id := q\<rparr>)"
    using assms(1,2) by (simp_all add: is_sync_folder_def)
  show ?thesis
    using reconcile_match [OF assms(4) s(1), of w post t0]
      reconcile_match [OF assms(4) s(2), of w post t0]
    by simp
qed

text \<open>A nested folder listed before the top-level one is the folder that is reused.\<close>

theorem reconcile_ignores_parent_id_witness:
  "file_name nested_folder = ''obsidian-sync'' \<and> is_folder nested_folder \<and>
   parent_id nested_folder = Some ''folder-7'' \<and>
   exploreAndUpload_reconcile world_found ([readme_item] @ nested_folder # [sync_folder]) [] =
     (Inr (Some ''folder-2''), [Notice (Found_existing_folder ''obsidian-sync'')]) \<and>
   exploreAndUpload_reconcile world_found
       ([readme_item] @ nested_folder\<lparr>parent_id := None\<rparr> # [sync_folder]) [] =
     exploreAndUpload_reconcile world_found ([readme_item] @ nested_folder # [sync_folder]) []"
proof -
  have a: "file_name nested_folder = ''obsidian-sync''" "is_folder nested_folder"
    "parent_id nested_folder = Some ''folder-7''"
    by (simp_all add: nested_folder_def)
  have b: "\<forall>y \<in> set [readme_item]. \<not> is_sync_folder y"
    by (simp add: is_sync_folder_def readme_item_def)
  have i: "id' nested_folder = ''folder-2''" by (simp add: nested_folder_def)
  from reconcile_ignores_parent_id [OF a b, of world_found "[sync_folder]" "[]" None] a i
  show ?thesis by simp
qed

text \<open>
  Claim C6 fails on the code. The service holds the folder \<^verbatim>\<open>obsidian-sync\<close> all along; the
  first listing request fails in transport, so \<^verbatim>\<open>fetchFiles\<close> returns the empty list, and
  \<^verbatim>\<open>exploreAndUpload\<close> calls \<^verbatim>\<open>createFolder\<close>. A listing after the run shows two folders of
  that name.
\<close>

theorem listing_failure_creates_duplicate_folder:
  "create_calls (snd (exploreAndUpload world_flaky [])) = [''obsidian-sync''] \<and>
   fst (fetchFiles world_flaky (snd (exploreAndUpload world_flaky []))) =
     Inr [sync_folder, sync_folder\<lparr>id' := ''folder-3''\<rparr>]"
  by (simp add: run_defs data_defs world_flaky_def)

text \<open>In general: whenever the listing request throws or is answered with a status other
  than 200, the run calls \<^verbatim>\<open>createFolder\<close>, whatever the service holds.\<close>

lemma listing_failure_creates_folder:
  assumes "requestUrl_GET w (t0 @ [Call_fetchFiles]) (fetchFiles_request w) = Inl error \<or>
           (\<exists>response. requestUrl_GET w (t0 @ [Call_fetchFiles]) (fetchFiles_request w) = Inr response
              \<and> status response \<noteq> 200)"
  shows "create_calls (snd (exploreAndUpload w t0)) = create_calls t0 @ [''obsidian-sync'']"
proof -
  obtain t1 where f: "fetchFiles w t0 = (Inr ([] :: RemoteItem list), t1)"
    using assms by (auto simp: fetchFiles_cases)
  obtain r t2 where rec: "exploreAndUpload_reconcile w ([] :: RemoteItem list)
      (t1 @ [Notice (Found_Quivr_files (map file_name ([] :: RemoteItem list)))]) = (Inr r, t2)"
    using reconcile_returns [of w "[]" "t1 @ [Notice (Found_Quivr_files (map file_name ([] :: RemoteItem list)))]"]
    by (metis prod.collapse)
  note ev = fetch_then_reconcile_events [OF f rec]
  show ?thesis
    using exploreAndUpload_unfold [OF f rec] ev(3) by (simp add: loop_events)
qed

text \<open>
  Claim C8 fails on the code for a folder name with a double quote. The body of the request
  of \<^verbatim>\<open>createFolder\<close> interpolates the name into the JSON text without escaping it, so for
  the name \<^verbatim>\<open>a"b\<close> the field \<^verbatim>\<open>knowledge_data\<close> is not the JSON encoding of
  \<^verbatim>\<open>{parent_id: null, file_name: name, is_folder: true}\<close> (which escapes the quote, and
  reads back as the object), and is not JSON at all.
\<close>

theorem createFolder_body_breaks_on_quote:
  "requests (snd (createFolder w ''a\"b'' [])) = [createFolder_request w ''a\"b''] \<and>
   body (createFolder_request w ''a\"b'') =
     Some (multipart_form_data ''----WebKitFormBoundaryjpD4mAhPBDMdS5QN''
            [(''knowledge_data'', ''{\"parent_id\":null,\"file_name\":\"a\"b\",\"is_folder\":true}'')]) \<and>
   JSON_stringify \<lparr>parent_id = None, file_name = ''a\"b'', is_folder = True\<rparr> =
     ''{\"parent_id\":null,\"file_name\":\"a'' @ [backslash, dquote] @ ''b\",\"is_folder\":true}'' \<and>
   JSON_parse ''{\"parent_id\":null,\"file_name\":\"a\"b\",\"is_folder\":true}'' = None \<and>
   JSON_parse (JSON_stringify \<lparr>parent_id = None, file_name = ''a\"b'', is_folder = True\<rparr>) =
     Some \<lparr>parent_id = None, file_name = ''a\"b'', is_folder = True\<rparr>"
proof -
  have 1: "body (createFolder_request w ''a\"b'') =
     Some (multipart_form_data ''----WebKitFormBoundaryjpD4mAhPBDMdS5QN''
            [(''knowledge_data'', ''{\"parent_id\":null,\"file_name\":\"a\"b\",\"is_folder\":true}'')])"
    by (simp add: createFolder_request_def createFolder_body_def multipart_form_data_def
        multipart_field_def)
  have 2: "JSON_stringify \<lparr>parent_id = None, file_name = ''a\"b'', is_folder = True\<rparr> =
     ''{\"parent_id\":null,\"file_name\":\"a'' @ [backslash, dquote] @ ''b\",\"is_folder\":true}''"
    by (simp add: JSON_stringify_def QuoteJSONString_def QuoteJSONChar_def dquote_def backslash_def)
  have 3: "JSON_parse ''{\"parent_id\":null,\"file_name\":\"a\"b\",\"is_folder\":true}'' = None"
    by code_simp
  have 4: "JSON_parse (JSON_stringify \<lparr>parent_id = None, file_name = ''a\"b'', is_folder = True\<rparr>) =
     Some \<lparr>parent_id = None, file_name = ''a\"b'', is_folder = True\<rparr>"
    by code_simp
  have 0: "requests (snd (createFolder w ''a\"b'' [])) = [createFolder_request w ''a\"b'']"
    by (simp add: createFolder_events)
  from 0 1 2 3 4 show ?thesis by (simp only: simp_thms)
qed

text \<open>
  Claim C9 fails on the code in its last part. For the document \<^verbatim>\<open>notes.md\<close> with the
  content \<^verbatim>\<open># Hello\<close> and the resolved id \<^verbatim>\<open>folder-1\<close>, \<^verbatim>\<open>uploadFile\<close> posts one request; its
  field \<^verbatim>\<open>knowledge_data\<close> reads back as
  \<^verbatim>\<open>{parent_id: "folder-1", file_name: "notes.md", is_folder: false}\<close> and its field \<^verbatim>\<open>file\<close>
  has the content of the document as its bytes, but the type of that file is the empty
  string, not \<^verbatim>\<open>text/markdown\<close>: line 193 builds the \<^verbatim>\<open>File\<close> from the typed \<^verbatim>\<open>Blob\<close> without
  passing a type.
\<close>

theorem uploaded_file_has_no_content_type:
  "posts (snd (uploadFile world_found notes_md (Some ''folder-1'') [])) =
     [\<lparr>post_instance = \<lparr>baseURL = ''https://api.quivr.app'',
                         instance_headers = [(''Authorization'', ''Bearer secret'')]\<rparr>,
       post_url = ''/knowledge/'',
       post_data =
         [(''knowledge_data'',
           Text ''{\"parent_id\":\"folder-1\",\"file_name\":\"notes.md\",\"is_folder\":false}''),
          (''file'', FilePart \<lparr>file_bits = ''# Hello'', file_name' = ''notes.md'', file_type = []\<rparr>)],
       post_headers = [(''Content-Type'', ''multipart/form-data'')]\<rparr>] \<and>
   JSON_parse ''{\"parent_id\":\"folder-1\",\"file_name\":\"notes.md\",\"is_folder\":false}'' =
     Some \<lparr>parent_id = Some ''folder-1'', file_name = ''notes.md'', is_folder = False\<rparr> \<and>
   name notes_md = ''notes.md'' \<and>
   vault_read world_found [Call_uploadFile notes_md (Some ''folder-1'')] notes_md = Inr ''# Hello''"
proof -
  have 1: "JSON_parse ''{\"parent_id\":\"folder-1\",\"file_name\":\"notes.md\",\"is_folder\":false}'' =
     Some \<lparr>parent_id = Some ''folder-1'', file_name = ''notes.md'', is_folder = False\<rparr>"
    by code_simp
  have 2: "JSON_stringify \<lparr>parent_id = Some ''folder-1'', file_name = ''notes.md'', is_folder = False\<rparr> =
     ''{\"parent_id\":\"folder-1\",\"file_name\":\"notes.md\",\"is_folder\":false}''"
    by (simp add: JSON_stringify_def QuoteJSONString_def QuoteJSONChar_def dquote_def backslash_def)
  have 3: "vault_read world_found [Call_uploadFile notes_md (Some ''folder-1'')] notes_md = Inr ''# Hello''"
    by (simp add: world_found_def notes_md_def todo_md_def)
  have 5: "name notes_md = ''notes.md''" by (simp add: notes_md_def)
  have 6: "apiKey (settings world_found) = ''secret''" by (simp add: world_found_def)
  have 4: "posts (snd (uploadFile world_found notes_md (Some ''folder-1'') [])) =
     [\<lparr>post_instance = \<lparr>baseURL = ''https://api.quivr.app'',
                         instance_headers = [(''Authorization'', ''Bearer secret'')]\<rparr>,
       post_url = ''/knowledge/'',
       post_data =
         [(''knowledge_data'',
           Text ''{\"parent_id\":\"folder-1\",\"file_name\":\"notes.md\",\"is_folder\":false}''),
          (''file'', FilePart \<lparr>file_bits = ''# Hello'', file_name' = ''notes.md'', file_type = []\<rparr>)],
       post_headers = [(''Content-Type'', ''multipart/form-data'')]\<rparr>]"
    by (simp add: uploadFile_posts uploadFile_request_def 3 5 2 6)
  from 1 3 4 5 show ?thesis by (simp only: simp_thms)
qed

end
